theory Spec2Isabelle
  imports Main
begin

section \<open>JavaScript values\<close>

text \<open>
  The values the backend handles are the ones \<open>express.json()\<close> and \<open>JSON.parse\<close>
  produce. Numbers are restricted to integers (floating point is outside the embedding).
  An absent property (\<open>undefined\<close>) is \<open>None\<close> of an option type.
\<close>

datatype json = JNull | JBool bool | JNum int | JStr string
  | JArr "json list" | JObj "(string \<times> json) list"

text \<open>Truthiness, as tested by \<open>!x\<close>, \<open>x || y\<close> and \<open>x ? a : b\<close>.\<close>

fun truthy :: "json \<Rightarrow> bool" where
  "truthy JNull = False"
| "truthy (JBool b) = b"
| "truthy (JNum n) = (n \<noteq> 0)"
| "truthy (JStr s) = (s \<noteq> [])"
| "truthy (JArr xs) = True"
| "truthy (JObj kvs) = True"

definition truthy_opt :: "json option \<Rightarrow> bool" where
  "truthy_opt v = (case v of None \<Rightarrow> False | Some x \<Rightarrow> truthy x)"

definition truthy_str :: "string option \<Rightarrow> bool" where
  "truthy_str v = (case v of None \<Rightarrow> False | Some s \<Rightarrow> s \<noteq> [])"

text \<open>
  Exceptions. \<open>Error m st\<close> is an error object raised by the environment (the HTTP
  client), with its \<open>message\<close> and \<open>stack\<close>. What a handler's \<open>catch\<close> block can
  receive is a \<open>thrown\<close>: a property read on \<open>null\<close>, a statement the database rejects,
  or a rejected promise.
\<close>

datatype js_error = Error (message: string) (stack: string)

datatype constraint = PrimaryKey string | ForeignKey string

datatype thrown = TypeError | ConstraintError constraint | Rejected js_error

text \<open>
  Property access \<open>v.k\<close>: throws on \<open>null\<close>, reads the entry of an object, and is
  \<open>undefined\<close> on every other value (for the property names used here).
\<close>

fun get_prop :: "json \<Rightarrow> string \<Rightarrow> thrown + json option" where
  "get_prop JNull k = Inl TypeError"
| "get_prop (JObj kvs) k = Inr (map_of kvs k)"
| "get_prop v k = Inr None"

section \<open>A reference implementation of \<open>JSON.stringify\<close> and \<open>JSON.parse\<close>\<close>

text \<open>
  The handlers below take the two built-ins as parameters, so every theorem about them
  holds for any implementation. \<open>stringify\<close> and \<open>parse\<close> are an executable
  implementation for evaluating the handlers on concrete inputs. They agree with the
  built-ins on JSON texts over ASCII whose numbers are integer literals (of a size a
  double holds exactly), whose strings use the one-letter escapes and whose property
  names are not array indices. \<open>parse\<close> rejects a text with a fraction, an exponent or a
  \<open>\u\<close> escape, which \<open>JSON.parse\<close> accepts.
\<close>

fun digits :: "nat \<Rightarrow> string" where
  "digits n = (if n < 10 then [''0123456789'' ! n]
               else digits (n div 10) @ [''0123456789'' ! (n mod 10)])"
declare digits.simps [simp del]

definition escape_char :: "char \<Rightarrow> string" where
  "escape_char c =
     (if c = CHR 0x22 then [CHR 0x5C, CHR 0x22]
      else if c = CHR 0x5C then [CHR 0x5C, CHR 0x5C]
      else if c = CHR 0x08 then [CHR 0x5C, CHR ''b'']
      else if c = CHR 0x0C then [CHR 0x5C, CHR ''f'']
      else if c = CHR 0x0A then [CHR 0x5C, CHR ''n'']
      else if c = CHR 0x0D then [CHR 0x5C, CHR ''r'']
      else if c = CHR 0x09 then [CHR 0x5C, CHR ''t'']
      else if (of_char c :: nat) < 0x20
      then [CHR 0x5C, CHR ''u'', CHR ''0'', CHR ''0'',
            ''0123456789abcdef'' ! ((of_char c :: nat) div 16),
            ''0123456789abcdef'' ! ((of_char c :: nat) mod 16)]
      else [c])"

definition quote :: "string \<Rightarrow> string" where
  "quote s = [CHR 0x22] @ concat (map escape_char s) @ [CHR 0x22]"

fun commas :: "string list \<Rightarrow> string" where
  "commas [] = []"
| "commas [x] = x"
| "commas (x # y # zs) = x @ '','' @ commas (y # zs)"

text \<open>\<open>JSON.stringify\<close> on these values: no white space, properties in the order of the list.\<close>

fun stringify :: "json \<Rightarrow> string" where
  "stringify JNull = ''null''"
| "stringify (JBool b) = (if b then ''true'' else ''false'')"
| "stringify (JNum n) = (if n < 0 then ''-'' @ digits (nat (- n)) else digits (nat n))"
| "stringify (JStr s) = quote s"
| "stringify (JArr xs) = ''['' @ commas (map stringify xs) @ '']''"
| "stringify (JObj kvs) =
     ''{'' @ commas (map (\<lambda>kv. quote (fst kv) @ '':'' @ stringify (snd kv)) kvs) @ ''}''"

text \<open>
  \<open>JSON.parse\<close>: a scanner that turns the text into tokens, one character at a time,
  and a parser that keeps the stack of the containers that are open.
\<close>

datatype token = TLBrack | TRBrack | TLBrace | TRBrace | TComma | TColon
  | TStr string | TNum int | TTrue | TFalse | TNull

datatype lex_state = LIdle | LStr string | LEsc string | LNum string | LWord string

definition is_digit :: "char \<Rightarrow> bool" where
  "is_digit c = (c \<in> set ''0123456789'')"

definition is_space :: "char \<Rightarrow> bool" where
  "is_space c = (c = CHR '' '' \<or> c = CHR 0x09 \<or> c = CHR 0x0A \<or> c = CHR 0x0D)"

definition is_letter :: "char \<Rightarrow> bool" where
  "is_letter c = (c \<in> set ''abcdefghijklmnopqrstuvwxyz'')"

fun digit_val :: "char \<Rightarrow> int" where
  "digit_val c = int (of_char c) - 48"

text \<open>
  The integer a number token denotes; \<open>None\<close> for a token that is not an integer literal
  (no digit, a character that is not a digit, or a leading zero).
\<close>

fun leading_zero :: "string \<Rightarrow> bool" where
  "leading_zero (c # d # ds) = (c = CHR ''0'')"
| "leading_zero ds = False"

definition digits_value :: "string \<Rightarrow> int option" where
  "digits_value ds =
     (if ds = [] \<or> \<not> list_all is_digit ds \<or> leading_zero ds then None
      else Some (foldl (\<lambda>a c. 10 * a + digit_val c) 0 ds))"

fun number_token :: "string \<Rightarrow> token option" where
  "number_token [] = None"
| "number_token (c # cs) =
     (if c = CHR ''-'' then map_option (\<lambda>n. TNum (- n)) (digits_value cs)
      else map_option TNum (digits_value (c # cs)))"

definition word_token :: "string \<Rightarrow> token option" where
  "word_token s =
     (if s = ''true'' then Some TTrue else if s = ''false'' then Some TFalse
      else if s = ''null'' then Some TNull else None)"

definition unescape :: "char \<Rightarrow> char option" where
  "unescape c =
     (if c = CHR 0x22 \<or> c = CHR 0x5C \<or> c = CHR ''/'' then Some c
      else if c = CHR ''b'' then Some (CHR 0x08)
      else if c = CHR ''f'' then Some (CHR 0x0C)
      else if c = CHR ''n'' then Some (CHR 0x0A)
      else if c = CHR ''r'' then Some (CHR 0x0D)
      else if c = CHR ''t'' then Some (CHR 0x09)
      else None)"

text \<open>A character read between tokens.\<close>

definition lex_idle :: "token list \<Rightarrow> char \<Rightarrow> (lex_state \<times> token list) option" where
  "lex_idle toks c =
     (if is_space c then Some (LIdle, toks)
      else if c = CHR ''['' then Some (LIdle, toks @ [TLBrack])
      else if c = CHR '']'' then Some (LIdle, toks @ [TRBrack])
      else if c = CHR ''{'' then Some (LIdle, toks @ [TLBrace])
      else if c = CHR ''}'' then Some (LIdle, toks @ [TRBrace])
      else if c = CHR '','' then Some (LIdle, toks @ [TComma])
      else if c = CHR '':'' then Some (LIdle, toks @ [TColon])
      else if c = CHR 0x22 then Some (LStr [], toks)
      else if c = CHR ''-'' \<or> is_digit c then Some (LNum [c], toks)
      else if is_letter c then Some (LWord [c], toks)
      else None)"

fun lex_step :: "lex_state \<Rightarrow> token list \<Rightarrow> char \<Rightarrow> (lex_state \<times> token list) option" where
  "lex_step LIdle toks c = lex_idle toks c"
| "lex_step (LStr acc) toks c =
     (if c = CHR 0x22 then Some (LIdle, toks @ [TStr acc])
      else if c = CHR 0x5C then Some (LEsc acc, toks)
      else if (of_char c :: nat) < 0x20 then None
      else Some (LStr (acc @ [c]), toks))"
| "lex_step (LEsc acc) toks c =
     (case unescape c of None \<Rightarrow> None | Some d \<Rightarrow> Some (LStr (acc @ [d]), toks))"
| "lex_step (LNum acc) toks c =
     (if is_digit c then Some (LNum (acc @ [c]), toks)
      else if c = CHR ''.'' \<or> c = CHR ''e'' \<or> c = CHR ''E'' then None
      else (case number_token acc of
              None \<Rightarrow> None
            | Some t \<Rightarrow> lex_idle (toks @ [t]) c))"
| "lex_step (LWord acc) toks c =
     (if is_letter c then Some (LWord (acc @ [c]), toks)
      else (case word_token acc of
              None \<Rightarrow> None
            | Some t \<Rightarrow> lex_idle (toks @ [t]) c))"

fun lex_end :: "lex_state \<Rightarrow> token list \<Rightarrow> token list option" where
  "lex_end LIdle toks = Some toks"
| "lex_end (LStr acc) toks = None"
| "lex_end (LEsc acc) toks = None"
| "lex_end (LNum acc) toks = map_option (\<lambda>t. toks @ [t]) (number_token acc)"
| "lex_end (LWord acc) toks = map_option (\<lambda>t. toks @ [t]) (word_token acc)"

fun lex :: "lex_state \<Rightarrow> token list \<Rightarrow> string \<Rightarrow> token list option" where
  "lex st toks [] = lex_end st toks"
| "lex st toks (c # cs) =
     (case lex_step st toks c of None \<Rightarrow> None | Some (st', toks') \<Rightarrow> lex st' toks' cs)"

text \<open>The containers that are open, innermost first, and what the parser expects next.\<close>

datatype frame = FArr "json list" | FObj "(string \<times> json) list" "string option"

datatype mode = MValue | MValueOrClose | MKeyOrClose | MKey | MColon | MAfter | MDone json

text \<open>Setting a property: a key already present keeps its place and takes the new value.\<close>

fun obj_put :: "string \<Rightarrow> json \<Rightarrow> (string \<times> json) list \<Rightarrow> (string \<times> json) list" where
  "obj_put k v [] = [(k, v)]"
| "obj_put k v ((k', v') # kvs) = (if k = k' then (k, v) # kvs else (k', v') # obj_put k v kvs)"

fun push_value :: "json \<Rightarrow> frame list \<Rightarrow> (frame list \<times> mode) option" where
  "push_value v [] = Some ([], MDone v)"
| "push_value v (FArr es # fs) = Some (FArr (es @ [v]) # fs, MAfter)"
| "push_value v (FObj kvs (Some k) # fs) = Some (FObj (obj_put k v kvs) None # fs, MAfter)"
| "push_value v (FObj kvs None # fs) = None"

fun close_frame :: "token \<Rightarrow> frame list \<Rightarrow> (frame list \<times> mode) option" where
  "close_frame TRBrack (FArr es # fs) = push_value (JArr es) fs"
| "close_frame TRBrace (FObj kvs None # fs) = push_value (JObj kvs) fs"
| "close_frame t fs = None"

fun value_token :: "token \<Rightarrow> frame list \<Rightarrow> (frame list \<times> mode) option" where
  "value_token TLBrack fs = Some (FArr [] # fs, MValueOrClose)"
| "value_token TLBrace fs = Some (FObj [] None # fs, MKeyOrClose)"
| "value_token (TStr s) fs = push_value (JStr s) fs"
| "value_token (TNum n) fs = push_value (JNum n) fs"
| "value_token TTrue fs = push_value (JBool True) fs"
| "value_token TFalse fs = push_value (JBool False) fs"
| "value_token TNull fs = push_value JNull fs"
| "value_token t fs = None"

fun key_token :: "token \<Rightarrow> frame list \<Rightarrow> (frame list \<times> mode) option" where
  "key_token (TStr k) (FObj kvs None # fs) = Some (FObj kvs (Some k) # fs, MColon)"
| "key_token t fs = None"

fun parse_step :: "mode \<Rightarrow> frame list \<Rightarrow> token \<Rightarrow> (frame list \<times> mode) option" where
  "parse_step MValue fs t = value_token t fs"
| "parse_step MValueOrClose fs t =
     (if t = TRBrack then close_frame t fs else value_token t fs)"
| "parse_step MKeyOrClose fs t =
     (if t = TRBrace then close_frame t fs else key_token t fs)"
| "parse_step MKey fs t = key_token t fs"
| "parse_step MColon fs t = (if t = TColon then Some (fs, MValue) else None)"
| "parse_step MAfter fs t =
     (if t = TComma
      then (case fs of
              FArr es # rest \<Rightarrow> Some (fs, MValue)
            | FObj kvs ko # rest \<Rightarrow> Some (fs, MKey)
            | [] \<Rightarrow> None)
      else close_frame t fs)"
| "parse_step (MDone v) fs t = None"

fun parse_tokens :: "mode \<Rightarrow> frame list \<Rightarrow> token list \<Rightarrow> json option" where
  "parse_tokens m fs [] = (case m of MDone v \<Rightarrow> Some v | _ \<Rightarrow> None)"
| "parse_tokens m fs (t # ts) =
     (case parse_step m fs t of None \<Rightarrow> None | Some (fs', m') \<Rightarrow> parse_tokens m' fs' ts)"

definition parse :: "string \<Rightarrow> json option" where
  "parse s = (case lex LIdle [] s of None \<Rightarrow> None | Some ts \<Rightarrow> parse_tokens MValue [] ts)"

section \<open>The store (database.js)\<close>

text \<open>
  One record per table of \<open>initializeDB\<close>, with the columns the handlers use. A
  \<open>TIMESTAMP\<close> is a clock reading (a natural number); a nullable \<open>TEXT\<close> column is an
  option. A table is the list of its rows in insertion order. A statement is rejected
  when it would break a primary key or a foreign key that the schema declares; a rejected
  statement changes nothing.
\<close>

record conversation_row =
  c_id :: string
  c_name :: string
  c_is_active :: bool
  c_created_at :: nat

record message_row =
  m_id :: string
  m_conversation_id :: string
  m_task_id :: "string option"
  m_role :: string
  m_content :: string
  m_created_at :: nat

record task_row =
  t_id :: string
  t_conversation_id :: string
  t_status :: string
  t_state_details :: "string option"
  t_created_at :: nat
  t_updated_at :: nat

record artifact_row =
  a_id :: string
  a_task_id :: string
  a_artifact_id_ref :: "string option"
  a_content :: string
  a_created_at :: nat

record store =
  conversations :: "conversation_row list"
  messages :: "message_row list"
  tasks :: "task_row list"
  task_artifacts :: "artifact_row list"

text \<open>\<open>SELECT id FROM tasks WHERE id = ?\<close>\<close>

definition select_task :: "store \<Rightarrow> string \<Rightarrow> task_row list" where
  "select_task db taskId = filter (\<lambda>r. t_id r = taskId) (tasks db)"

text \<open>
  \<open>UPDATE tasks SET conversation_id = ?, status = ?, state_details = ?,
  updated_at = CURRENT_TIMESTAMP WHERE id = ?\<close>. The foreign key of \<open>conversation_id\<close>
  is checked when a row is written. The statement sets a foreign-key column, and the
  engine carries such an update out as the deletion of the row followed by its
  insertion: it rejects the statement when a row of \<open>task_artifacts\<close> references the
  task (the foreign key of \<open>task_artifacts.task_id\<close>).
\<close>

definition update_task ::
  "nat \<Rightarrow> string \<Rightarrow> string \<Rightarrow> string \<Rightarrow> string \<Rightarrow> store \<Rightarrow> thrown + store" where
  "update_task now conversation_id st stateDetailsString taskId db =
     (if select_task db taskId \<noteq> [] \<and> conversation_id \<notin> set (map c_id (conversations db))
      then Inl (ConstraintError (ForeignKey ''tasks.conversation_id''))
      else if select_task db taskId \<noteq> [] \<and> taskId \<in> set (map a_task_id (task_artifacts db))
      then Inl (ConstraintError (ForeignKey ''task_artifacts.task_id''))
      else Inr (db\<lparr>tasks :=
             map (\<lambda>r. if t_id r = taskId
                       then r\<lparr>t_conversation_id := conversation_id, t_status := st,
                              t_state_details := Some stateDetailsString, t_updated_at := now\<rparr>
                       else r) (tasks db)\<rparr>))"

text \<open>
  \<open>INSERT INTO tasks (id, conversation_id, status, state_details, created_at, updated_at)
  VALUES (?, ?, ?, ?, CURRENT_TIMESTAMP, CURRENT_TIMESTAMP)\<close>
\<close>

definition insert_task ::
  "nat \<Rightarrow> string \<Rightarrow> string \<Rightarrow> string \<Rightarrow> string \<Rightarrow> store \<Rightarrow> thrown + store" where
  "insert_task now taskId conversation_id st stateDetailsString db =
     (if taskId \<in> set (map t_id (tasks db))
      then Inl (ConstraintError (PrimaryKey ''tasks.id''))
      else if conversation_id \<notin> set (map c_id (conversations db))
      then Inl (ConstraintError (ForeignKey ''tasks.conversation_id''))
      else Inr (db\<lparr>tasks := tasks db @
             [\<lparr>t_id = taskId, t_conversation_id = conversation_id, t_status = st,
               t_state_details = Some stateDetailsString,
               t_created_at = now, t_updated_at = now\<rparr>]\<rparr>))"

text \<open>
  \<open>INSERT OR REPLACE INTO task_artifacts (id, task_id, artifact_id_ref, content,
  created_at) VALUES (?, ?, ?, ?, CURRENT_TIMESTAMP)\<close>. The only uniqueness constraint of
  \<open>task_artifacts\<close> is its primary key \<open>id\<close>, so \<open>OR REPLACE\<close> removes a row exactly when
  it has the new row's \<open>id\<close>.
\<close>

definition insert_or_replace_artifact ::
  "nat \<Rightarrow> string \<Rightarrow> string \<Rightarrow> string \<Rightarrow> string \<Rightarrow> store \<Rightarrow> thrown + store" where
  "insert_or_replace_artifact now artifactDbId taskId ref artifactContentString db =
     (if taskId \<notin> set (map t_id (tasks db))
      then Inl (ConstraintError (ForeignKey ''task_artifacts.task_id''))
      else Inr (db\<lparr>task_artifacts :=
             filter (\<lambda>r. a_id r \<noteq> artifactDbId) (task_artifacts db) @
             [\<lparr>a_id = artifactDbId, a_task_id = taskId, a_artifact_id_ref = Some ref,
               a_content = artifactContentString, a_created_at = now\<rparr>]\<rparr>))"

text \<open>
  \<open>INSERT INTO messages (id, conversation_id, task_id, role, content, created_at)
  VALUES (?, ?, ?, ?, ?, ?)\<close>
\<close>

definition insert_message :: "message_row \<Rightarrow> store \<Rightarrow> thrown + store" where
  "insert_message row db =
     (if m_id row \<in> set (map m_id (messages db))
      then Inl (ConstraintError (PrimaryKey ''messages.id''))
      else if m_conversation_id row \<notin> set (map c_id (conversations db))
      then Inl (ConstraintError (ForeignKey ''messages.conversation_id''))
      else Inr (db\<lparr>messages := messages db @ [row]\<rparr>))"

section \<open>The push channel (WebSocket setup of the server)\<close>

datatype ready_state = CONNECTING | OPEN | CLOSING | CLOSED

text \<open>
  A socket is named by a number. \<open>clients\<close> is the \<open>Set\<close> of connected sockets in
  insertion order, \<open>readyState\<close> the state of each socket and \<open>sent\<close> the frames written
  to it so far, oldest first.
\<close>

record ws_state =
  clients :: "nat list"
  readyState :: "nat \<Rightarrow> ready_state"
  sent :: "nat \<Rightarrow> string list"

text \<open>
  \<open>client.send(frame)\<close>: the frame is written to an open socket; a socket that is
  closing or closed drops it. (A socket of the server is never \<open>CONNECTING\<close>: the library
  hands it over open.)
\<close>

definition ws_send :: "nat \<Rightarrow> string \<Rightarrow> ws_state \<Rightarrow> ws_state" where
  "ws_send c frame w =
     (if readyState w c = OPEN then w\<lparr>sent := (sent w)(c := sent w c @ [frame])\<rparr> else w)"

text \<open>
  \<open>broadcast(data)\<close>: one call of \<open>JSON.stringify\<close>, then the loop over \<open>clients\<close>.
\<close>

definition broadcast :: "(json \<Rightarrow> string) \<Rightarrow> json \<Rightarrow> ws_state \<Rightarrow> ws_state" where
  "broadcast JSON_stringify data w =
     (let jsonData = JSON_stringify data
      in foldl (\<lambda>w' client. if readyState w' client = OPEN then ws_send client jsonData w' else w')
           w (clients w))"

text \<open>\<open>clients.add(ws)\<close> and \<open>clients.delete(ws)\<close> of a \<open>Set\<close>.\<close>

definition set_add :: "nat \<Rightarrow> nat list \<Rightarrow> nat list" where
  "set_add c cs = (if c \<in> set cs then cs else cs @ [c])"

definition set_delete :: "nat \<Rightarrow> nat list \<Rightarrow> nat list" where
  "set_delete c cs = filter (\<lambda>x. x \<noteq> c) cs"

text \<open>
  The handlers of \<open>wss.on('connection', ...)\<close>. The library hands over a socket that is
  open; \<open>on_message\<close> parses the frame and broadcasts the parsed value, or answers the
  sender alone when the frame does not parse.
\<close>

definition on_connection :: "(json \<Rightarrow> string) \<Rightarrow> nat \<Rightarrow> ws_state \<Rightarrow> ws_state" where
  "on_connection JSON_stringify c w =
     ws_send c
       (JSON_stringify (JObj [(''type'', JStr ''system''),
          (''message'', JStr ''Connected to WebSocket server'')]))
       (w\<lparr>clients := set_add c (clients w), readyState := (readyState w)(c := OPEN)\<rparr>)"

definition on_message ::
  "(json \<Rightarrow> string) \<Rightarrow> (string \<Rightarrow> json option) \<Rightarrow> nat \<Rightarrow> string \<Rightarrow> ws_state \<Rightarrow> ws_state" where
  "on_message JSON_stringify JSON_parse c messageString w =
     (case JSON_parse messageString of
        Some parsedMessage \<Rightarrow> broadcast JSON_stringify parsedMessage w
      | None \<Rightarrow>
          ws_send c
            (JSON_stringify (JObj [(''type'', JStr ''error''),
               (''message'', JStr ''Invalid message format.'')])) w)"

definition on_close :: "nat \<Rightarrow> ws_state \<Rightarrow> ws_state" where
  "on_close c w = w\<lparr>clients := set_delete c (clients w)\<rparr>"

definition on_error :: "nat \<Rightarrow> ws_state \<Rightarrow> ws_state" where
  "on_error c w = w\<lparr>clients := set_delete c (clients w)\<rparr>"

section \<open>HTTP responses\<close>

text \<open>
  \<open>res.status(n).json(body)\<close>. \<open>ErrorJson m e\<close> is the body
  \<open>{ message: m, details: error.message }\<close> of a \<open>catch\<close> block, for the caught error \<open>e\<close>.
\<close>

datatype res_body = Json json | ErrorJson string thrown

datatype response = Response nat res_body

fun status_code :: "response \<Rightarrow> nat" where
  "status_code (Response n b) = n"

record server =
  database :: store
  channel :: ws_state

section \<open>Task reconciliation: \<open>POST /host/task_update\<close>\<close>

text \<open>
  The body of the request, as the handler destructures it. A field is \<open>None\<close> when the
  property is absent or \<open>null\<close>; the fields bound to \<open>TEXT\<close> columns are strings;
  \<open>artifacts\<close> is \<open>None\<close> when \<open>Array.isArray(artifacts)\<close> is false. An entry of
  \<open>artifacts\<close> is \<open>None\<close> when it is \<open>null\<close>, and otherwise the two properties the loop
  reads from it (both absent for an entry that is a number, a string, a boolean or an
  array).
\<close>

record artifact_in =
  artifactId :: "string option"
  content :: "json option"

record task_event =
  ev_id :: "string option"
  contextId :: "string option"
  status :: "string option"
  state_details :: "json option"
  artifacts :: "artifact_in option list option"

text \<open>
  \<open>{ ...art, content: c }\<close> and the task object with its decoded \<open>state_details\<close> and its
  \<open>artifacts\<close>. A timestamp column is read back as its clock reading.
\<close>

definition opt_str :: "string option \<Rightarrow> json" where
  "opt_str v = (case v of None \<Rightarrow> JNull | Some s \<Rightarrow> JStr s)"

definition artifact_json :: "artifact_row \<Rightarrow> json \<Rightarrow> json" where
  "artifact_json art c =
     JObj [(''id'', JStr (a_id art)), (''task_id'', JStr (a_task_id art)),
           (''artifact_id_ref'', opt_str (a_artifact_id_ref art)),
           (''content'', c), (''created_at'', JNum (int (a_created_at art)))]"

definition task_json :: "task_row \<Rightarrow> json \<Rightarrow> json list \<Rightarrow> json" where
  "task_json task sd arts =
     JObj [(''id'', JStr (t_id task)), (''conversation_id'', JStr (t_conversation_id task)),
           (''status'', JStr (t_status task)), (''state_details'', sd),
           (''created_at'', JNum (int (t_created_at task))),
           (''updated_at'', JNum (int (t_updated_at task))),
           (''artifacts'', JArr arts)]"

text \<open>
  The two \<open>try { JSON.parse(...) } catch\<close> blocks of \<open>getTaskWithArtifacts\<close>:
  \<open>task.state_details ? JSON.parse(task.state_details) : null\<close> and
  \<open>JSON.parse(art.content)\<close>, each with its placeholder.
\<close>

definition decode_state_details :: "(string \<Rightarrow> json option) \<Rightarrow> string option \<Rightarrow> json" where
  "decode_state_details JSON_parse sd =
     (case sd of
        None \<Rightarrow> JNull
      | Some s \<Rightarrow>
          if s = [] then JNull
          else (case JSON_parse s of
                  Some v \<Rightarrow> v
                | None \<Rightarrow> JObj [(''error'', JStr ''Could not parse state_details.'')]))"

definition decode_content :: "(string \<Rightarrow> json option) \<Rightarrow> string \<Rightarrow> json" where
  "decode_content JSON_parse s =
     (case JSON_parse s of
        Some v \<Rightarrow> v
      | None \<Rightarrow> JArr [JObj [(''type'', JStr ''error''),
                 (''text'', JStr ''Error: Could not parse artifact content.'')]])"

text \<open>
  \<open>SELECT ... FROM task_artifacts WHERE task_id = ? ORDER BY created_at ASC\<close>; rows of
  equal \<open>created_at\<close> keep their insertion order.
\<close>

definition select_artifacts :: "store \<Rightarrow> string \<Rightarrow> artifact_row list" where
  "select_artifacts db taskId =
     sort_key a_created_at (filter (\<lambda>a. a_task_id a = taskId) (task_artifacts db))"

definition getTaskWithArtifacts :: "(string \<Rightarrow> json option) \<Rightarrow> store \<Rightarrow> string \<Rightarrow> json option" where
  "getTaskWithArtifacts JSON_parse db taskId =
     (case select_task db taskId of
        [] \<Rightarrow> None
      | task # _ \<Rightarrow>
          Some (task_json task
                 (decode_state_details JSON_parse (t_state_details task))
                 (map (\<lambda>art. artifact_json art (decode_content JSON_parse (a_content art)))
                    (select_artifacts db (t_id task)))))"

text \<open>
  The loop over \<open>artifacts\<close>. \<open>k\<close> counts the entries stored so far in this request: the
  \<open>k\<close>-th stored entry takes the \<open>k\<close>-th value of \<open>generateUUID()\<close> and the clock reading
  of its own statement. Reading \<open>artifact.artifactId\<close> of a \<open>null\<close> entry throws. The
  result is the store reached and the error thrown, if any.
\<close>

fun store_artifacts ::
  "(json \<Rightarrow> string) \<Rightarrow> (nat \<Rightarrow> nat) \<Rightarrow> (nat \<Rightarrow> string) \<Rightarrow> string \<Rightarrow> nat \<Rightarrow>
   artifact_in option list \<Rightarrow> store \<Rightarrow> store \<times> thrown option" where
  "store_artifacts JSON_stringify CURRENT_TIMESTAMP generateUUID taskId k [] db = (db, None)"
| "store_artifacts JSON_stringify CURRENT_TIMESTAMP generateUUID taskId k (None # rest) db =
     (db, Some TypeError)"
| "store_artifacts JSON_stringify CURRENT_TIMESTAMP generateUUID taskId k (Some artifact # rest) db =
     (case (artifactId artifact, content artifact) of
        (Some ref, Some c) \<Rightarrow>
          if ref = [] \<or> \<not> truthy c
          then store_artifacts JSON_stringify CURRENT_TIMESTAMP generateUUID taskId k rest db
          else (case insert_or_replace_artifact (CURRENT_TIMESTAMP (Suc k)) (generateUUID k)
                       taskId ref (JSON_stringify c) db of
                  Inl e \<Rightarrow> (db, Some e)
                | Inr db' \<Rightarrow>
                    store_artifacts JSON_stringify CURRENT_TIMESTAMP generateUUID taskId
                      (Suc k) rest db')
      | _ \<Rightarrow> store_artifacts JSON_stringify CURRENT_TIMESTAMP generateUUID taskId k rest db)"

text \<open>\<open>JSON.stringify(state_details || status)\<close>\<close>

definition stateDetailsString :: "(json \<Rightarrow> string) \<Rightarrow> json option \<Rightarrow> string \<Rightarrow> string" where
  "stateDetailsString JSON_stringify sd st =
     JSON_stringify (case sd of Some d \<Rightarrow> if truthy d then d else JStr st | None \<Rightarrow> JStr st)"

text \<open>The lookup of the task and its update or insertion (first clock reading of the request).\<close>

definition upsert_task ::
  "nat \<Rightarrow> string \<Rightarrow> string \<Rightarrow> string \<Rightarrow> string \<Rightarrow> store \<Rightarrow> thrown + store" where
  "upsert_task now taskId conversation_id st sds db =
     (let existingTask = select_task db taskId
      in if length existingTask > 0
         then update_task now conversation_id st sds taskId db
         else insert_task now taskId conversation_id st sds db)"

definition missing_fields :: response where
  "missing_fields = Response 400 (Json (JObj [(''message'',
     JStr ''Missing required fields: id (taskId), contextId (conversation_id), status.'')]))"

definition task_update_failed :: "thrown \<Rightarrow> response" where
  "task_update_failed e = Response 500 (ErrorJson ''Internal server error processing task update'' e)"

text \<open>
  The end of the \<open>try\<close> block: the snapshot of the task is read and, \<open>if
  (completeTaskData)\<close>, broadcast as a \<open>task_updated\<close> event.
\<close>

definition broadcast_snapshot ::
  "(json \<Rightarrow> string) \<Rightarrow> (string \<Rightarrow> json option) \<Rightarrow> store \<Rightarrow> string \<Rightarrow> ws_state \<Rightarrow> ws_state" where
  "broadcast_snapshot JSON_stringify JSON_parse db taskId w =
     (case getTaskWithArtifacts JSON_parse db taskId of
        Some completeTaskData \<Rightarrow>
          broadcast JSON_stringify
            (JObj [(''type'', JStr ''task_updated''), (''data'', completeTaskData)]) w
      | None \<Rightarrow> w)"

text \<open>The part of the handler inside \<open>try\<close>, for the three mandatory fields given.\<close>

definition reconcile ::
  "(json \<Rightarrow> string) \<Rightarrow> (string \<Rightarrow> json option) \<Rightarrow> (nat \<Rightarrow> nat) \<Rightarrow> (nat \<Rightarrow> string) \<Rightarrow>
   string \<Rightarrow> string \<Rightarrow> string \<Rightarrow> task_event \<Rightarrow> server \<Rightarrow> server \<times> response" where
  "reconcile JSON_stringify JSON_parse CURRENT_TIMESTAMP generateUUID taskId conversation_id st ev srv =
     (case upsert_task (CURRENT_TIMESTAMP 0) taskId conversation_id st
             (stateDetailsString JSON_stringify (state_details ev) st) (database srv) of
        Inl e \<Rightarrow> (srv, task_update_failed e)
      | Inr db1 \<Rightarrow>
         (case (case artifacts ev of
                  Some arts \<Rightarrow>
                    store_artifacts JSON_stringify CURRENT_TIMESTAMP generateUUID taskId 0 arts db1
                | None \<Rightarrow> (db1, None)) of
            (db2, Some e) \<Rightarrow> (srv\<lparr>database := db2\<rparr>, task_update_failed e)
          | (db2, None) \<Rightarrow>
              (srv\<lparr>database := db2,
                   channel := broadcast_snapshot JSON_stringify JSON_parse db2 taskId
                                (channel srv)\<rparr>,
               Response 200 (Json (JObj [(''status'', JStr ''received''),
                                         (''taskId'', JStr taskId)])))))"

definition task_update ::
  "(json \<Rightarrow> string) \<Rightarrow> (string \<Rightarrow> json option) \<Rightarrow> (nat \<Rightarrow> nat) \<Rightarrow> (nat \<Rightarrow> string) \<Rightarrow>
   task_event \<Rightarrow> server \<Rightarrow> server \<times> response" where
  "task_update JSON_stringify JSON_parse CURRENT_TIMESTAMP generateUUID ev srv =
     (case ev_id ev of
        None \<Rightarrow> (srv, missing_fields)
      | Some taskId \<Rightarrow>
         (case contextId ev of
            None \<Rightarrow> (srv, missing_fields)
          | Some conversation_id \<Rightarrow>
             (case status ev of
                None \<Rightarrow> (srv, missing_fields)
              | Some st \<Rightarrow>
                  if taskId = [] \<or> conversation_id = [] \<or> st = []
                  then (srv, missing_fields)
                  else reconcile JSON_stringify JSON_parse CURRENT_TIMESTAMP generateUUID
                         taskId conversation_id st ev srv)))"

section \<open>The host gateway (host_connector.js)\<close>

text \<open>
  The HTTP client is the environment: \<open>fetch\<close> takes the request and either throws or
  returns a response, whose \<open>text()\<close> and \<open>json()\<close> either throw or return. The
  module-level \<open>fetch\<close> is \<open>None\<close> while the dynamic import has not succeeded.
\<close>

record request =
  req_url :: string
  req_method :: string
  req_headers :: "(string \<times> string) list"
  req_body :: "string option"

record http_response =
  r_ok :: bool
  r_status :: nat
  r_statusText :: string
  r_text :: "js_error + string"
  r_json :: "js_error + json"

record host_connector =
  fetch :: "(request \<Rightarrow> js_error + http_response) option"
  PYTHON_ADK_HOST_BASE_URL :: string
  currentApiKey :: string

definition updateApiKey :: "string \<Rightarrow> host_connector \<Rightarrow> host_connector" where
  "updateApiKey newKey hc = hc\<lparr>currentApiKey := newKey\<rparr>"

text \<open>\<open>try { body } catch (error) { handler }\<close> around a computation that may throw.\<close>

definition try_catch :: "(js_error + 'a) \<Rightarrow> (js_error \<Rightarrow> js_error + 'a) \<Rightarrow> js_error + 'a" where
  "try_catch body handler = (case body of Inl e \<Rightarrow> handler e | Inr v \<Rightarrow> Inr v)"

definition fetch_not_available :: json where
  "fetch_not_available =
     JObj [(''error'', JBool True), (''message'', JStr ''Fetch client not available.'')]"

text \<open>\<open>{ error: true, status: response.status, message: ..., details: errorBody }\<close>\<close>

definition status_error :: "http_response \<Rightarrow> string \<Rightarrow> string \<Rightarrow> json" where
  "status_error response what errorBody =
     JObj [(''error'', JBool True), (''status'', JNum (int (r_status response))),
           (''message'', JStr (what @ r_statusText response)), (''details'', JStr errorBody)]"

text \<open>\<open>{ error: true, message: error.message, details: error.stack }\<close>\<close>

definition caught_error :: "js_error \<Rightarrow> json" where
  "caught_error error =
     JObj [(''error'', JBool True), (''message'', JStr (message error)),
           (''details'', JStr (stack error))]"

text \<open>
  The request each call passes to \<open>fetch\<close>: \<open>POST\<close> to the endpoint under the base URL,
  with the two headers and the body, if any.
\<close>

definition post_request :: "host_connector \<Rightarrow> string \<Rightarrow> string option \<Rightarrow> request" where
  "post_request hc path body =
     \<lparr>req_url = PYTHON_ADK_HOST_BASE_URL hc @ path, req_method = ''POST'',
      req_headers = [(''Content-Type'', ''application/json''), (''X-API-Key'', currentApiKey hc)],
      req_body = body\<rparr>"

text \<open>
  The three calls. The result is \<open>Inr\<close> of the value the promise resolves to, or \<open>Inl\<close>
  of the error it rejects with.
\<close>

definition registerAgent :: "(json \<Rightarrow> string) \<Rightarrow> host_connector \<Rightarrow> string \<Rightarrow> js_error + json" where
  "registerAgent JSON_stringify hc agentUrl =
     (case fetch hc of
        None \<Rightarrow> Inr fetch_not_available
      | Some send \<Rightarrow>
          try_catch
            (case send (post_request hc ''/register_agent_service''
                          (Some (JSON_stringify (JObj [(''agent_url'', JStr agentUrl)])))) of
               Inl e \<Rightarrow> Inl e
             | Inr response \<Rightarrow>
                 if \<not> r_ok response
                 then (case r_text response of
                         Inl e \<Rightarrow> Inl e
                       | Inr errorBody \<Rightarrow>
                           Inr (status_error response ''Failed to register agent: '' errorBody))
                 else r_json response)
            (\<lambda>error. Inr (caught_error error)))"

definition createConversation :: "host_connector \<Rightarrow> js_error + json" where
  "createConversation hc =
     (case fetch hc of
        None \<Rightarrow> Inr fetch_not_available
      | Some send \<Rightarrow>
          try_catch
            (case send (post_request hc ''/create_conversation_service'' None) of
               Inl e \<Rightarrow> Inl e
             | Inr response \<Rightarrow>
                 if \<not> r_ok response
                 then (case r_text response of
                         Inl e \<Rightarrow> Inl e
                       | Inr errorBody \<Rightarrow>
                           Inr (status_error response ''Failed to create conversation: '' errorBody))
                 else r_json response)
            (\<lambda>error. Inr (caught_error error)))"

definition sendMessageToHost :: "(json \<Rightarrow> string) \<Rightarrow> host_connector \<Rightarrow> json \<Rightarrow> js_error + json" where
  "sendMessageToHost JSON_stringify hc messageData =
     (case fetch hc of
        None \<Rightarrow> Inr fetch_not_available
      | Some send \<Rightarrow>
          try_catch
            (case send (post_request hc ''/send_message_service''
                          (Some (JSON_stringify messageData))) of
               Inl e \<Rightarrow> Inl e
             | Inr response \<Rightarrow>
                 if \<not> r_ok response
                 then (case r_text response of
                         Inl e \<Rightarrow> Inl e
                       | Inr errorBody \<Rightarrow>
                           Inr (status_error response ''Failed to send message: '' errorBody))
                 else r_json response)
            (\<lambda>error. Inr (caught_error error)))"

section \<open>Sending a message: \<open>POST /message/send\<close>\<close>

text \<open>
  The body of the request, as the handler destructures it; \<open>None\<close> is an absent or
  \<open>null\<close> property.
\<close>

record message_request =
  msg_conversation_id :: "string option"
  msg_role :: "string option"
  msg_content :: "json option"
  msg_task_id :: "string option"

definition missing_message_fields :: response where
  "missing_message_fields = Response 400 (Json (JObj [(''message'',
     JStr ''Missing required fields: conversation_id, role, and content (must be an array).'')]))"

definition bad_role :: response where
  "bad_role = Response 400 (Json (JObj [(''message'', JStr (''Role must be '' @ [CHR 0x27] @
     ''user'' @ [CHR 0x27] @ '' or '' @ [CHR 0x27] @ ''agent'' @ [CHR 0x27] @ ''.''))]))"

definition message_send_failed :: "thrown \<Rightarrow> response" where
  "message_send_failed e = Response 500 (ErrorJson ''Internal server error sending message'' e)"

text \<open>
  \<open>{ message: "Failed to send message to host", details: hostResponse.message }\<close>; an
  undefined \<open>details\<close> is left out of the body.
\<close>

definition host_failed :: "json \<Rightarrow> response" where
  "host_failed hostResponse =
     Response 500 (Json (JObj ((''message'', JStr ''Failed to send message to host'') #
        (case get_prop hostResponse ''message'' of
           Inr (Some m) \<Rightarrow> [(''details'', m)]
         | _ \<Rightarrow> []))))"

text \<open>
  \<open>{ messageId, contextId: conversation_id, role, parts: content }\<close>, with \<open>taskId\<close>
  added \<open>if (task_id)\<close>.
\<close>

definition messageDataForHost ::
  "string \<Rightarrow> string \<Rightarrow> string \<Rightarrow> json \<Rightarrow> string option \<Rightarrow> json" where
  "messageDataForHost messageId conversation_id role parts task_id =
     JObj ([(''messageId'', JStr messageId), (''contextId'', JStr conversation_id),
            (''role'', JStr role), (''parts'', parts)] @
           (case task_id of
              Some t \<Rightarrow> if t \<noteq> [] then [(''taskId'', JStr t)] else []
            | None \<Rightarrow> []))"

text \<open>
  The part of the handler inside \<open>try\<close>, for a request that passed the two checks.
  \<open>generateUUID 0\<close> is the message id and \<open>now\<close> the reading of \<open>new Date()\<close>.
\<close>

definition relay_and_store ::
  "(json \<Rightarrow> string) \<Rightarrow> nat \<Rightarrow> (nat \<Rightarrow> string) \<Rightarrow> host_connector \<Rightarrow>
   string \<Rightarrow> string \<Rightarrow> json \<Rightarrow> string option \<Rightarrow> server \<Rightarrow> server \<times> response" where
  "relay_and_store JSON_stringify now generateUUID hc conversation_id role parts task_id srv =
     (let messageId = generateUUID 0;
          createdAt = now
      in case sendMessageToHost JSON_stringify hc
                (messageDataForHost messageId conversation_id role parts task_id) of
           Inl e \<Rightarrow> (srv, message_send_failed (Rejected e))
         | Inr hostResponse \<Rightarrow>
            (case get_prop hostResponse ''error'' of
               Inl e \<Rightarrow> (srv, message_send_failed e)
             | Inr err \<Rightarrow>
                if truthy_opt err then (srv, host_failed hostResponse)
                else
                  (let stored_task_id = (if truthy_str task_id then task_id else None);
                       broadcastPayload =
                         JObj [(''id'', JStr messageId), (''conversation_id'', JStr conversation_id),
                               (''task_id'', opt_str stored_task_id), (''role'', JStr role),
                               (''content'', parts), (''created_at'', JNum (int createdAt))]
                   in case insert_message
                             \<lparr>m_id = messageId, m_conversation_id = conversation_id,
                              m_task_id = stored_task_id, m_role = role,
                              m_content = JSON_stringify parts, m_created_at = createdAt\<rparr>
                             (database srv) of
                        Inl e \<Rightarrow> (srv, message_send_failed e)
                      | Inr db' \<Rightarrow>
                          (srv\<lparr>database := db',
                               channel := broadcast JSON_stringify
                                 (JObj [(''type'', JStr ''new_message''),
                                        (''data'', broadcastPayload)]) (channel srv)\<rparr>,
                           Response 201 (Json (JObj
                             [(''message'', JStr ''Message sent and stored successfully''),
                              (''data'', broadcastPayload)]))))))"

text \<open>\<open>Array.isArray(content)\<close>\<close>

fun is_array :: "json \<Rightarrow> bool" where
  "is_array (JArr xs) = True"
| "is_array v = False"

definition message_send ::
  "(json \<Rightarrow> string) \<Rightarrow> nat \<Rightarrow> (nat \<Rightarrow> string) \<Rightarrow> host_connector \<Rightarrow>
   message_request \<Rightarrow> server \<Rightarrow> server \<times> response" where
  "message_send JSON_stringify now generateUUID hc req srv =
     (case msg_conversation_id req of
        None \<Rightarrow> (srv, missing_message_fields)
      | Some conversation_id \<Rightarrow>
         (case msg_role req of
            None \<Rightarrow> (srv, missing_message_fields)
          | Some role \<Rightarrow>
             (case msg_content req of
                None \<Rightarrow> (srv, missing_message_fields)
              | Some parts \<Rightarrow>
                  if conversation_id = [] \<or> role = [] \<or> \<not> truthy parts \<or> \<not> is_array parts
                  then (srv, missing_message_fields)
                  else if role \<noteq> ''user'' \<and> role \<noteq> ''agent''
                  then (srv, bad_role)
                  else relay_and_store JSON_stringify now generateUUID hc
                         conversation_id role parts (msg_task_id req) srv)))"

section \<open>Example states\<close>

text \<open>
  A store with one conversation and a channel with three open subscribers, for
  evaluating the handlers.
\<close>

definition store0 :: store where
  "store0 = \<lparr>conversations =
               [\<lparr>c_id = ''c1'', c_name = ''Conversation c1'', c_is_active = True,
                 c_created_at = 1\<rparr>],
             messages = [], tasks = [], task_artifacts = []\<rparr>"

definition channel0 :: ws_state where
  "channel0 = \<lparr>clients = [1, 2, 3],
               readyState = (\<lambda>c. if c = 1 \<or> c = 2 \<or> c = 3 then OPEN else CLOSED),
               sent = (\<lambda>c. [])\<rparr>"

definition server0 :: server where
  "server0 = \<lparr>database = store0, channel = channel0\<rparr>"

text \<open>
  Events for task \<open>t1\<close> of conversation \<open>c1\<close>: two without artifacts; two with one
  artifact of reference \<open>r1\<close> and different content; one with two entries of reference
  \<open>r1\<close>; one whose first entry has no content; one with a \<open>null\<close> entry between two
  well-formed ones. And an event for a conversation that the store does not have.
\<close>

definition content_v1 :: json where
  "content_v1 = JArr [JObj [(''type'', JStr ''text''), (''text'', JStr ''v1'')]]"

definition content_v2 :: json where
  "content_v2 = JArr [JObj [(''type'', JStr ''text''), (''text'', JStr ''v2'')]]"

definition event_plain :: task_event where
  "event_plain = \<lparr>ev_id = Some ''t1'', contextId = Some ''c1'', status = Some ''working'',
                   state_details = None, artifacts = None\<rparr>"

definition event_done :: task_event where
  "event_done = \<lparr>ev_id = Some ''t1'', contextId = Some ''c1'', status = Some ''completed'',
                  state_details = None, artifacts = None\<rparr>"

definition event_v1 :: task_event where
  "event_v1 = \<lparr>ev_id = Some ''t1'', contextId = Some ''c1'', status = Some ''working'',
                state_details = None,
                artifacts = Some [Some \<lparr>artifactId = Some ''r1'', content = Some content_v1\<rparr>]\<rparr>"

definition event_v2 :: task_event where
  "event_v2 = \<lparr>ev_id = Some ''t1'', contextId = Some ''c1'', status = Some ''working'',
                state_details = None,
                artifacts = Some [Some \<lparr>artifactId = Some ''r1'', content = Some content_v2\<rparr>]\<rparr>"

definition event_double :: task_event where
  "event_double = \<lparr>ev_id = Some ''t1'', contextId = Some ''c1'', status = Some ''working'',
                state_details = None,
                artifacts = Some [Some \<lparr>artifactId = Some ''r1'', content = Some content_v1\<rparr>,
                                  Some \<lparr>artifactId = Some ''r1'', content = Some content_v2\<rparr>]\<rparr>"

definition event_mixed :: task_event where
  "event_mixed = \<lparr>ev_id = Some ''t1'', contextId = Some ''c1'', status = Some ''working'',
                   state_details = None,
                   artifacts = Some [Some \<lparr>artifactId = Some ''r2'', content = None\<rparr>,
                                     Some \<lparr>artifactId = Some ''r3'', content = Some content_v2\<rparr>]\<rparr>"

definition event_null :: task_event where
  "event_null = \<lparr>ev_id = Some ''t1'', contextId = Some ''c1'', status = Some ''working'',
                  state_details = None,
                  artifacts = Some [Some \<lparr>artifactId = Some ''r1'', content = Some content_v1\<rparr>,
                                    None,
                                    Some \<lparr>artifactId = Some ''r2'', content = Some content_v2\<rparr>]\<rparr>"

definition event_unknown :: task_event where
  "event_unknown = \<lparr>ev_id = Some ''t1'', contextId = Some ''c9'', status = Some ''working'',
                     state_details = None, artifacts = None\<rparr>"

text \<open>
  The values \<open>generateUUID()\<close> returns in a request, pairwise different: \<open>u\<close>, \<open>uu\<close>,
  \<open>uuu\<close> and so on.
\<close>

definition uuids :: "nat \<Rightarrow> string" where
  "uuids k = replicate (Suc k) CHR ''u''"

text \<open>
  A host that answers every request with status 500, and a request to relay one text part.
\<close>

definition host_500 :: host_connector where
  "host_500 = \<lparr>fetch = Some (\<lambda>req. Inr \<lparr>r_ok = False, r_status = 500,
                   r_statusText = ''Internal Server Error'', r_text = Inr ''boom'',
                   r_json = Inl (Error ''invalid json response body'' [])\<rparr>),
               PYTHON_ADK_HOST_BASE_URL = ''http://localhost:8000'', currentApiKey = ''k''\<rparr>"

definition message0 :: message_request where
  "message0 = \<lparr>msg_conversation_id = Some ''c1'', msg_role = Some ''user'',
               msg_content = Some (JArr [JObj [(''type'', JStr ''text''), (''text'', JStr ''hi'')]]),
               msg_task_id = None\<rparr>"

text \<open>
  A store whose task row and artifact row hold texts that are not JSON. (No statement of
  the handlers writes such a text: each stored payload is an output of
  \<open>JSON.stringify\<close>.)
\<close>

definition store_corrupt :: store where
  "store_corrupt = \<lparr>conversations =
               [\<lparr>c_id = ''c1'', c_name = ''Conversation c1'', c_is_active = True,
                 c_created_at = 1\<rparr>],
             messages = [],
             tasks = [\<lparr>t_id = ''t1'', t_conversation_id = ''c1'', t_status = ''working'',
                       t_state_details = Some ''{oops'', t_created_at = 2, t_updated_at = 2\<rparr>],
             task_artifacts = [\<lparr>a_id = ''u0'', a_task_id = ''t1'', a_artifact_id_ref = Some ''r0'',
                       a_content = ''{oops'', a_created_at = 3\<rparr>]\<rparr>"

section \<open>The push channel: delivery\<close>

lemma ws_send_clients [simp]: "clients (ws_send c f w) = clients w"
  by (simp add: ws_send_def)

lemma ws_send_readyState [simp]: "readyState (ws_send c f w) = readyState w"
  by (simp add: ws_send_def)

lemma ws_send_sent:
  "sent (ws_send c f w) x = (if x = c \<and> readyState w c = OPEN then sent w c @ [f] else sent w x)"
  by (simp add: ws_send_def)

text \<open>
  The loop of \<open>broadcast\<close> over a list of sockets without repetition: it changes only
  \<open>sent\<close>, and appends the frame once to each socket of the list that is open.
\<close>

lemma broadcast_loop:
  assumes "distinct cs"
  shows "clients (foldl (\<lambda>w' client. if readyState w' client = OPEN
                                        then ws_send client f w' else w') w cs) = clients w
       \<and> readyState (foldl (\<lambda>w' client. if readyState w' client = OPEN
                                        then ws_send client f w' else w') w cs) = readyState w
       \<and> (\<forall>x. sent (foldl (\<lambda>w' client. if readyState w' client = OPEN
                                        then ws_send client f w' else w') w cs) x =
              (if x \<in> set cs \<and> readyState w x = OPEN then sent w x @ [f] else sent w x))"
  using assms
proof (induction cs rule: rev_induct)
  case Nil
  then show ?case by simp
next
  case (snoc c cs)
  then show ?case by (auto simp: ws_send_sent)
qed

lemma broadcast_clients [simp]: "distinct (clients w) \<Longrightarrow> clients (broadcast S d w) = clients w"
  by (simp add: broadcast_def Let_def broadcast_loop)

lemma broadcast_readyState [simp]: "distinct (clients w) \<Longrightarrow> readyState (broadcast S d w) = readyState w"
  by (simp add: broadcast_def Let_def broadcast_loop)

lemma broadcast_sent:
  "distinct (clients w) \<Longrightarrow>
   sent (broadcast S d w) x =
     (if x \<in> set (clients w) \<and> readyState w x = OPEN then sent w x @ [S d] else sent w x)"
  by (simp add: broadcast_def Let_def broadcast_loop)

text \<open>The handlers keep \<open>clients\<close> free of repetition, as a \<open>Set\<close> is.\<close>

lemma clients_stay_distinct:
  assumes "distinct (clients w)"
  shows "distinct (clients (on_connection S c w))" "distinct (clients (on_message S P c m w))"
    "distinct (clients (on_close c w))" "distinct (clients (on_error c w))"
    "distinct (clients (broadcast S d w))"
  using assms
  by (auto simp: on_connection_def on_message_def on_close_def on_error_def set_add_def
        set_delete_def split: option.splits)

lemma on_close_clients: "clients (on_close d w) = filter (\<lambda>x. x \<noteq> d) (clients w)"
  by (simp add: on_close_def set_delete_def)

lemma on_error_eq_on_close: "on_error d w = on_close d w"
  by (simp add: on_error_def on_close_def)

lemma on_close_other [simp]:
  "readyState (on_close d w) = readyState w" "sent (on_close d w) = sent w"
  by (simp_all add: on_close_def)

lemma filter_absent: "d \<notin> set cs \<Longrightarrow> filter (\<lambda>x. x \<noteq> d) cs = cs"
  by (induction cs) auto

lemma length_filter_remove1:
  "distinct cs \<Longrightarrow> d \<in> set cs \<Longrightarrow> Suc (length (filter (\<lambda>x. x \<noteq> d) cs)) = length cs"
  by (induction cs) (auto simp: filter_absent)

text \<open>
  C6. Let \<open>clients\<close> hold \<open>N\<close> subscribers, each once and each with an open channel.
  \<open>broadcast\<close> of an event appends the one string \<open>JSON.stringify\<close> returns for it to
  what each of the \<open>N\<close> has been sent, exactly once, and sends nothing to any other
  socket. After the \<open>close\<close> handler or the \<open>error\<close> handler has run for a subscriber
  \<open>d\<close>, \<open>d\<close> is no longer in \<open>clients\<close>, which holds the other \<open>N - 1\<close>; a second
  \<open>broadcast\<close> appends its string once to each of them, so that each has received both
  events in order, and \<open>d\<close> has received the first event only.
\<close>

theorem fan_out_delivery:
  assumes once: "distinct (clients w)"
    and opened: "\<forall>c \<in> set (clients w). readyState w c = OPEN"
    and member: "d \<in> set (clients w)"
    and first: "w1 = broadcast JSON_stringify e w"
    and gone: "w2 = on_close d w1 \<or> w2 = on_error d w1"
    and second: "w3 = broadcast JSON_stringify e2 w2"
  shows "(\<forall>c \<in> set (clients w). sent w1 c = sent w c @ [JSON_stringify e])
       \<and> (\<forall>c. c \<notin> set (clients w) \<longrightarrow> sent w1 c = sent w c)
       \<and> d \<notin> set (clients w2)
       \<and> set (clients w2) = set (clients w) - {d}
       \<and> length (clients w2) = length (clients w) - 1
       \<and> (\<forall>c \<in> set (clients w2). sent w3 c = sent w c @ [JSON_stringify e, JSON_stringify e2])
       \<and> sent w3 d = sent w d @ [JSON_stringify e]"
proof -
  have w2: "w2 = on_close d w1"
    using gone by (auto simp: on_error_eq_on_close)
  have c1: "clients w1 = clients w" and r1: "readyState w1 = readyState w"
    using once by (simp_all add: first)
  have s1: "sent w1 c = (if c \<in> set (clients w) then sent w c @ [JSON_stringify e] else sent w c)" for c
    using once opened by (simp add: first broadcast_sent)
  have c2: "clients w2 = filter (\<lambda>x. x \<noteq> d) (clients w)"
    by (simp add: w2 on_close_clients c1)
  have d2: "distinct (clients w2)"
    using once by (simp add: c2)
  have s3: "sent w3 c = (if c \<in> set (clients w2) then sent w1 c @ [JSON_stringify e2] else sent w1 c)" for c
  proof -
    have "readyState w2 = readyState w"
      by (simp add: w2 r1)
    then have "readyState w2 c = OPEN" if "c \<in> set (clients w2)"
      using that opened by (simp add: c2)
    moreover have "sent w2 = sent w1"
      by (simp add: w2)
    ultimately show ?thesis
      using d2 by (auto simp: second broadcast_sent)
  qed
  have "Suc (length (clients w2)) = length (clients w)"
    using member once by (simp add: c2 length_filter_remove1)
  then have len: "length (clients w2) = length (clients w) - 1"
    by simp
  show ?thesis
    using member len by (auto simp: s1 s3 c2)
qed

text \<open>
  Three open subscribers; subscriber 2 disconnects between the two events.
\<close>

theorem fan_out_delivery_witness:
  "sent (broadcast stringify (JStr ''E'') channel0) 1 = [stringify (JStr ''E'')]
   \<and> sent (broadcast stringify (JStr ''E'') channel0) 2 = [stringify (JStr ''E'')]
   \<and> sent (broadcast stringify (JStr ''E'') channel0) 3 = [stringify (JStr ''E'')]
   \<and> clients (on_close 2 (broadcast stringify (JStr ''E'') channel0)) = [1, 3]
   \<and> sent (broadcast stringify (JStr ''E2'') (on_close 2 (broadcast stringify (JStr ''E'') channel0))) 1
        = [stringify (JStr ''E''), stringify (JStr ''E2'')]
   \<and> sent (broadcast stringify (JStr ''E2'') (on_close 2 (broadcast stringify (JStr ''E'') channel0))) 2
        = [stringify (JStr ''E'')]
   \<and> sent (broadcast stringify (JStr ''E2'') (on_close 2 (broadcast stringify (JStr ''E'') channel0))) 3
        = [stringify (JStr ''E''), stringify (JStr ''E2'')]"
proof -
  have c: "clients channel0 = [1, 2, 3]" and s: "sent channel0 = (\<lambda>c. [])"
    by (simp_all add: channel0_def)
  have "distinct (clients channel0)" "\<forall>c \<in> set (clients channel0). readyState channel0 c = OPEN"
    "2 \<in> set (clients channel0)"
    by (simp_all add: channel0_def)
  from fan_out_delivery [OF this refl disjI1 [OF refl] refl, of stringify "JStr ''E''" "JStr ''E2''"]
  show ?thesis
    by (simp add: c s on_close_clients)
qed

section \<open>The push channel: inbound messages\<close>

text \<open>
  C7, as amended. The handler parses an inbound frame. When the frame parses as JSON, the
  parsed value is serialised again and that string, \<open>JSON.stringify(JSON.parse(frame))\<close>,
  is sent once to every subscriber in \<open>clients\<close> whose channel is open, the sender
  included; no other socket is sent anything. When the frame does not parse, nothing is
  broadcast: the sender alone is sent the frame
  \<open>{"type":"error","message":"Invalid message format."}\<close>.
\<close>

theorem on_message_relay:
  assumes once: "distinct (clients w)"
  shows "(JSON_parse m = Some v \<longrightarrow>
            (\<forall>c. sent (on_message JSON_stringify JSON_parse s m w) c =
                 (if c \<in> set (clients w) \<and> readyState w c = OPEN
                  then sent w c @ [JSON_stringify v] else sent w c)))
       \<and> (JSON_parse m = None \<longrightarrow>
            (\<forall>c. sent (on_message JSON_stringify JSON_parse s m w) c =
                 (if c = s \<and> readyState w s = OPEN
                  then sent w c @ [JSON_stringify (JObj [(''type'', JStr ''error''),
                         (''message'', JStr ''Invalid message format.'')])]
                  else sent w c)))"
  using once by (auto simp: on_message_def broadcast_sent ws_send_sent)

text \<open>
  Subscriber 1 sends \<open>true\<close>, which all three receive, and \<open>hello\<close>, which is answered
  to subscriber 1 alone.
\<close>

theorem on_message_relay_witness:
  "parse ''true'' = Some (JBool True)
   \<and> sent (on_message stringify parse 1 ''true'' channel0) 1 = [stringify (JBool True)]
   \<and> sent (on_message stringify parse 1 ''true'' channel0) 2 = [stringify (JBool True)]
   \<and> sent (on_message stringify parse 1 ''true'' channel0) 3 = [stringify (JBool True)]
   \<and> sent (on_message stringify parse 1 ''true'' channel0) 4 = []
   \<and> parse ''hello'' = None
   \<and> sent (on_message stringify parse 1 ''hello'' channel0) 1
        = [stringify (JObj [(''type'', JStr ''error''), (''message'', JStr ''Invalid message format.'')])]
   \<and> sent (on_message stringify parse 1 ''hello'' channel0) 2 = []"
proof -
  have once: "distinct (clients channel0)"
    by (simp add: channel0_def)
  have p1: "parse ''true'' = Some (JBool True)" and p2: "parse ''hello'' = None"
    by code_simp+
  have c: "clients channel0 = [1, 2, 3]" "sent channel0 = (\<lambda>c. [])"
     "readyState channel0 = (\<lambda>c. if c = 1 \<or> c = 2 \<or> c = 3 then OPEN else CLOSED)"
    by (simp_all add: channel0_def)
  from on_message_relay [OF once, of parse "''true''" "JBool True" stringify 1]
       on_message_relay [OF once, of parse "''hello''" "JBool True" stringify 1]
  show ?thesis
    by (simp add: p1 p2 c del: stringify.simps)
qed

text \<open>
  C7 as stated fails. The frame \<open>hello\<close> is not JSON: subscribers 2 and 3 are sent
  nothing and the sender is sent the error frame. The frame \<open>{"a": 1}\<close> reaches
  subscriber 2 as \<open>{"a":1}\<close>, which is not the same sequence of bytes.
\<close>

theorem on_message_not_verbatim:
  \<open>sent (on_message stringify parse 1 ''hello'' channel0) 2 = []
   \<and> sent (on_message stringify parse 1 ''hello'' channel0) 3 = []
   \<and> sent (on_message stringify parse 1 ''hello'' channel0) 1
        = [stringify (JObj [(''type'', JStr ''error''), (''message'', JStr ''Invalid message format.'')])]
   \<and> sent (on_message stringify parse 1 ''{"a": 1}'' channel0) 2 = [''{"a":1}'']
   \<and> ''{"a":1}'' \<noteq> ''{"a": 1}''\<close>
proof -
  have p1: "parse ''hello'' = None" by code_simp
  have p2: \<open>parse ''{"a": 1}'' = Some (JObj [(''a'', JNum 1)])\<close> by code_simp
  have s2: \<open>stringify (JObj [(''a'', JNum 1)]) = ''{"a":1}''\<close> by code_simp
  have d: "distinct (clients channel0)" by (simp add: channel0_def)
  show ?thesis
    by (simp add: on_message_def p1 p2 s2 ws_send_sent broadcast_sent [OF d] del: stringify.simps)
       (simp add: channel0_def)
qed

section \<open>The store: one row per task\<close>

text \<open>
  With the primary key \<open>id\<close> unique among the rows of \<open>tasks\<close>, a lookup by \<open>id\<close> finds
  no row or exactly one.
\<close>

lemma filter_key_distinct:
  "distinct (map f xs) \<Longrightarrow> x \<in> set xs \<Longrightarrow> filter (\<lambda>r. f r = f x) xs = [x]"
proof (induction xs)
  case Nil
  then show ?case by simp
next
  case (Cons a xs)
  have absent: "filter (\<lambda>r. f r = k) xs = []" if "k \<notin> f ` set xs" for k
    using that by (induction xs) auto
  show ?case
  proof (cases "x = a")
    case True
    with Cons.prems show ?thesis by (simp add: absent)
  next
    case False
    with Cons show ?thesis by (auto simp: image_iff)
  qed
qed

lemma select_task_cases:
  assumes "distinct (map t_id (tasks db))"
  shows "select_task db tid = [] \<and> tid \<notin> set (map t_id (tasks db))
       \<or> (\<exists>row. select_task db tid = [row] \<and> row \<in> set (tasks db) \<and> t_id row = tid)"
proof (cases "tid \<in> set (map t_id (tasks db))")
  case True
  then obtain row where row: "row \<in> set (tasks db)" "t_id row = tid"
    by auto
  with assms have "select_task db tid = [row]"
    using filter_key_distinct [of t_id "tasks db" row] by (simp add: select_task_def)
  with row show ?thesis by blast
next
  case False
  then have "select_task db tid = []"
    by (auto simp: select_task_def filter_empty_conv)
  with False show ?thesis by simp
qed

lemma select_task_nonempty: "select_task db tid \<noteq> [] \<longleftrightarrow> tid \<in> set (map t_id (tasks db))"
  by (auto simp: select_task_def filter_empty_conv)

text \<open>
  What the insertion and the update of a task row return when the conversation exists:
  the update is rejected when an artifact row references the task, and otherwise
  rewrites the one row of the task.
\<close>

lemma insert_task_row:
  assumes "distinct (map t_id (tasks db))" and "cid \<in> set (map c_id (conversations db))"
    and "tid \<notin> set (map t_id (tasks db))"
  shows "\<exists>db'. insert_task now tid cid st sds db = Inr db'
           \<and> conversations db' = conversations db \<and> task_artifacts db' = task_artifacts db
           \<and> messages db' = messages db
           \<and> distinct (map t_id (tasks db'))
           \<and> length (tasks db') = Suc (length (tasks db))
           \<and> select_task db' tid =
               [\<lparr>t_id = tid, t_conversation_id = cid, t_status = st, t_state_details = Some sds,
                 t_created_at = now, t_updated_at = now\<rparr>]"
proof -
  have "filter (\<lambda>r. t_id r = tid) (tasks db) = []"
    using assms(3) by (auto simp: filter_empty_conv)
  with assms show ?thesis
    by (simp add: insert_task_def select_task_def)
qed

lemma update_task_rejected:
  assumes "select_task db tid \<noteq> []" and "tid \<in> set (map a_task_id (task_artifacts db))"
  shows "\<exists>e. update_task now cid st sds tid db = Inl e"
  using assms by (simp add: update_task_def)

lemma update_task_row:
  assumes "distinct (map t_id (tasks db))" and "cid \<in> set (map c_id (conversations db))"
    and "select_task db tid = [old]"
    and "tid \<notin> set (map a_task_id (task_artifacts db))"
  shows "\<exists>db'. update_task now cid st sds tid db = Inr db'
           \<and> conversations db' = conversations db \<and> task_artifacts db' = task_artifacts db
           \<and> messages db' = messages db
           \<and> distinct (map t_id (tasks db'))
           \<and> length (tasks db') = length (tasks db)
           \<and> select_task db' tid =
               [old\<lparr>t_conversation_id := cid, t_status := st, t_state_details := Some sds,
                    t_updated_at := now\<rparr>]"
proof -
  define f :: "task_row \<Rightarrow> task_row" where "f = (\<lambda>r. if t_id r = tid
                 then r\<lparr>t_conversation_id := cid, t_status := st,
                        t_state_details := Some sds, t_updated_at := now\<rparr>
                 else r)"
  have keep: "t_id (f r) = t_id r" for r
    by (simp add: f_def)
  have "old \<in> set (filter (\<lambda>r. t_id r = tid) (tasks db))"
    using assms(3) by (simp add: select_task_def)
  then have old: "t_id old = tid"
    by simp
  have "filter (\<lambda>r. t_id r = tid) (map f rows) = map f (filter (\<lambda>r. t_id r = tid) rows)" for rows
    by (induction rows) (auto simp: keep)
  then have sel: "filter (\<lambda>r. t_id r = tid) (map f (tasks db)) = [f old]"
    using assms(3) by (simp add: select_task_def)
  have "t_id \<circ> f = t_id"
    by (rule ext) (simp add: keep)
  then have ids: "distinct (map (t_id \<circ> f) (tasks db))"
    using assms(1) by simp
  have upd: "update_task now cid st sds tid db = Inr (db\<lparr>tasks := map f (tasks db)\<rparr>)"
    using assms(2,4) by (simp add: update_task_def f_def)
  have "f old = old\<lparr>t_conversation_id := cid, t_status := st, t_state_details := Some sds,
                    t_updated_at := now\<rparr>"
    by (simp add: f_def old)
  with sel ids show ?thesis
    by (simp add: upd select_task_def)
qed

lemma upsert_task_outcome:
  assumes "distinct (map t_id (tasks db))" and "cid \<in> set (map c_id (conversations db))"
  shows "(select_task db tid \<noteq> [] \<and> tid \<in> set (map a_task_id (task_artifacts db))
            \<and> (\<exists>e. upsert_task now tid cid st sds db = Inl e))
       \<or> (\<not> (select_task db tid \<noteq> [] \<and> tid \<in> set (map a_task_id (task_artifacts db)))
            \<and> (\<exists>db' row. upsert_task now tid cid st sds db = Inr db'
                 \<and> conversations db' = conversations db \<and> task_artifacts db' = task_artifacts db
                 \<and> distinct (map t_id (tasks db'))
                 \<and> select_task db' tid = [row]
                 \<and> t_updated_at row = now
                 \<and> (select_task db tid = [] \<longrightarrow>
                       t_created_at row = now \<and> length (tasks db') = Suc (length (tasks db)))
                 \<and> (\<forall>old. select_task db tid = [old] \<longrightarrow>
                       t_created_at row = t_created_at old
                       \<and> length (tasks db') = length (tasks db))))"
  using select_task_cases [OF assms(1), of tid]
proof (elim disjE conjE exE)
  assume "select_task db tid = []" and "tid \<notin> set (map t_id (tasks db))"
  with insert_task_row [OF assms, of tid now st sds] show ?thesis
    by (auto simp: upsert_task_def)
next
  fix old assume old: "select_task db tid = [old]"
  show ?thesis
  proof (cases "tid \<in> set (map a_task_id (task_artifacts db))")
    case True
    with old update_task_rejected [of db tid now cid st sds] show ?thesis
      by (auto simp: upsert_task_def)
  next
    case False
    with old update_task_row [OF assms old False, of now st sds] show ?thesis
      by (auto simp: upsert_task_def)
  qed
qed

text \<open>
  The loop over \<open>artifacts\<close> writes to \<open>task_artifacts\<close> only, and once the task row
  exists it throws only at a \<open>null\<close> entry.
\<close>

lemma store_artifacts_frame:
  "tasks (fst (store_artifacts S clock rng tid k arts db)) = tasks db
   \<and> conversations (fst (store_artifacts S clock rng tid k arts db)) = conversations db
   \<and> messages (fst (store_artifacts S clock rng tid k arts db)) = messages db"
proof (induction S clock rng tid k arts db rule: store_artifacts.induct)
  case (1 S clock rng tid k db)
  then show ?case by simp
next
  case (2 S clock rng tid k rest db)
  then show ?case by simp
next
  case (3 S clock rng tid k artifact rest db)
  then show ?case
    by (auto simp: insert_or_replace_artifact_def split: option.splits sum.splits if_splits)
qed

lemma store_artifacts_completes:
  "tid \<in> set (map t_id (tasks db)) \<Longrightarrow> None \<notin> set arts \<Longrightarrow>
   snd (store_artifacts S clock rng tid k arts db) = None"
proof (induction S clock rng tid k arts db rule: store_artifacts.induct)
  case (1 S clock rng tid k db)
  then show ?case by simp
next
  case (2 S clock rng tid k rest db)
  then show ?case by simp
next
  case (3 S clock rng tid k artifact rest db)
  then show ?case
    by (auto simp: insert_or_replace_artifact_def split: option.splits sum.splits if_splits)
qed

section \<open>Reconciliation of an event with its mandatory fields\<close>

text \<open>
  The task row after the handler has run, for an event with its three mandatory fields
  whose conversation exists: either the update was rejected, and the handler returns
  the state it was given with the answer 500, or the row was written with the clock
  reading of the statement.
\<close>

lemma task_update_row:
  assumes fields: "ev_id ev = Some tid" "contextId ev = Some cid" "status ev = Some st"
      "tid \<noteq> []" "cid \<noteq> []" "st \<noteq> []"
    and conv: "cid \<in> set (map c_id (conversations (database srv)))"
    and pk: "distinct (map t_id (tasks (database srv)))"
    and run: "task_update S P clock rng ev srv = (srv', res)"
  shows "distinct (map t_id (tasks (database srv')))
       \<and> conversations (database srv') = conversations (database srv)
       \<and> (select_task (database srv) tid \<noteq> []
             \<and> tid \<in> set (map a_task_id (task_artifacts (database srv)))
             \<and> srv' = srv \<and> status_code res = 500
          \<or> \<not> (select_task (database srv) tid \<noteq> []
                  \<and> tid \<in> set (map a_task_id (task_artifacts (database srv))))
             \<and> (\<exists>row. select_task (database srv') tid = [row]
                   \<and> t_updated_at row = clock 0
                   \<and> (select_task (database srv) tid = [] \<longrightarrow>
                         t_created_at row = clock 0
                         \<and> length (tasks (database srv')) = Suc (length (tasks (database srv))))
                   \<and> (\<forall>old. select_task (database srv) tid = [old] \<longrightarrow>
                         t_created_at row = t_created_at old
                         \<and> length (tasks (database srv')) = length (tasks (database srv)))))"
proof -
  let ?sds = "stateDetailsString S (state_details ev) st"
  have rec: "reconcile S P clock rng tid cid st ev srv = (srv', res)"
    using run fields by (simp add: task_update_def)
  from upsert_task_outcome [OF pk conv, of tid "clock 0" st ?sds]
  show ?thesis
  proof (elim disjE conjE exE)
    fix e
    assume "select_task (database srv) tid \<noteq> []"
      and "tid \<in> set (map a_task_id (task_artifacts (database srv)))"
      and "upsert_task (clock 0) tid cid st ?sds (database srv) = Inl e"
    with rec pk show ?thesis
      by (auto simp: reconcile_def task_update_failed_def)
  next
    fix db1 row
    assume new: "\<not> (select_task (database srv) tid \<noteq> []
                  \<and> tid \<in> set (map a_task_id (task_artifacts (database srv))))"
      and up: "upsert_task (clock 0) tid cid st ?sds (database srv) = Inr db1"
      and db1: "conversations db1 = conversations (database srv)"
        "distinct (map t_id (tasks db1))" "select_task db1 tid = [row]" "t_updated_at row = clock 0"
        "select_task (database srv) tid = [] \<longrightarrow>
           t_created_at row = clock 0 \<and> length (tasks db1) = Suc (length (tasks (database srv)))"
        "\<forall>old. select_task (database srv) tid = [old] \<longrightarrow>
           t_created_at row = t_created_at old \<and> length (tasks db1) = length (tasks (database srv))"
    define arts where "arts = (case artifacts ev of Some a \<Rightarrow> a | None \<Rightarrow> [])"
    define db2 where "db2 = fst (store_artifacts S clock rng tid 0 arts db1)"
    have frame: "tasks db2 = tasks db1" "conversations db2 = conversations db1"
      using store_artifacts_frame [of S clock rng tid 0 arts db1] by (simp_all add: db2_def)
    have "database srv' = db2"
      using rec up
      by (cases "artifacts ev")
         (auto simp: reconcile_def db2_def arts_def split: prod.splits option.splits)
    moreover have "select_task db2 tid = select_task db1 tid"
      by (simp add: select_task_def frame)
    ultimately show ?thesis
      using new db1 frame by auto
  qed
qed

text \<open>
  When no artifact row references the task and no entry of \<open>artifacts\<close> is \<open>null\<close>, the
  handler reaches the end of its \<open>try\<close> block: it answers 200 and the channel is the one
  the snapshot step leaves.
\<close>

lemma task_update_ok:
  assumes fields: "ev_id ev = Some tid" "contextId ev = Some cid" "status ev = Some st"
      "tid \<noteq> []" "cid \<noteq> []" "st \<noteq> []"
    and conv: "cid \<in> set (map c_id (conversations (database srv)))"
    and free: "tid \<notin> set (map a_task_id (task_artifacts (database srv)))"
    and objects: "\<forall>arts. artifacts ev = Some arts \<longrightarrow> None \<notin> set arts"
    and run: "task_update S P clock rng ev srv = (srv', res)"
  shows "status_code res = 200
       \<and> select_task (database srv') tid \<noteq> []
       \<and> channel srv' = broadcast_snapshot S P (database srv') tid (channel srv)"
proof -
  let ?sds = "stateDetailsString S (state_details ev) st"
  have rec: "reconcile S P clock rng tid cid st ev srv = (srv', res)"
    using run fields by (simp add: task_update_def)
  obtain db1 where up: "upsert_task (clock 0) tid cid st ?sds (database srv) = Inr db1"
    and t1: "tid \<in> set (map t_id (tasks db1))"
  proof (cases "select_task (database srv) tid = []")
    case True
    then have "tid \<notin> set (map t_id (tasks (database srv)))"
      using select_task_nonempty [of "database srv" tid] by simp
    with True conv that show ?thesis
      by (simp add: upsert_task_def insert_task_def)
  next
    case False
    then have here: "tid \<in> set (map t_id (tasks (database srv)))"
      using select_task_nonempty [of "database srv" tid] by simp
    define f :: "task_row \<Rightarrow> task_row" where "f = (\<lambda>r. if t_id r = tid
                 then r\<lparr>t_conversation_id := cid, t_status := st,
                        t_state_details := Some ?sds, t_updated_at := clock 0\<rparr>
                 else r)"
    have "t_id \<circ> f = t_id"
      by (rule ext) (simp add: f_def)
    then have "map t_id (map f (tasks (database srv))) = map t_id (tasks (database srv))"
      by simp
    with here have "tid \<in> set (map t_id (tasks ((database srv)\<lparr>tasks := map f (tasks (database srv))\<rparr>)))"
      by simp
    moreover have "upsert_task (clock 0) tid cid st ?sds (database srv)
                     = Inr ((database srv)\<lparr>tasks := map f (tasks (database srv))\<rparr>)"
      using False conv free by (simp add: upsert_task_def update_task_def f_def)
    ultimately show ?thesis
      using that by blast
  qed
  define arts where "arts = (case artifacts ev of Some a \<Rightarrow> a | None \<Rightarrow> [])"
  define db2 where "db2 = fst (store_artifacts S clock rng tid 0 arts db1)"
  have "None \<notin> set arts"
    using objects by (cases "artifacts ev") (simp_all add: arts_def)
  then have "snd (store_artifacts S clock rng tid 0 arts db1) = None"
    using store_artifacts_completes [OF t1] by simp
  then have loop: "store_artifacts S clock rng tid 0 arts db1 = (db2, None)"
    by (simp add: db2_def prod_eq_iff)
  have "tasks db2 = tasks db1"
    using store_artifacts_frame [of S clock rng tid 0 arts db1] by (simp add: db2_def)
  then have t2: "select_task db2 tid \<noteq> []"
    using t1 by (simp add: select_task_nonempty)
  have "(srv', res) = (srv\<lparr>database := db2,
                              channel := broadcast_snapshot S P db2 tid (channel srv)\<rparr>,
               Response 200 (Json (JObj [(''status'', JStr ''received''), (''taskId'', JStr tid)])))"
    using rec up loop
    by (cases "artifacts ev") (simp_all add: reconcile_def arts_def)
  with t2 show ?thesis
    by auto
qed

text \<open>
  The object \<open>getTaskWithArtifacts\<close> returns for a task that the store has, written out.
\<close>

lemma getTaskWithArtifacts_found:
  assumes "select_task db taskId = row # others"
  shows "getTaskWithArtifacts JSON_parse db taskId = Some (JObj
           [(''id'', JStr (t_id row)),
            (''conversation_id'', JStr (t_conversation_id row)),
            (''status'', JStr (t_status row)),
            (''state_details'',
               (case t_state_details row of
                  None \<Rightarrow> JNull
                | Some s \<Rightarrow>
                    if s = [] then JNull
                    else (case JSON_parse s of
                            Some v \<Rightarrow> v
                          | None \<Rightarrow> JObj [(''error'', JStr ''Could not parse state_details.'')]))),
            (''created_at'', JNum (int (t_created_at row))),
            (''updated_at'', JNum (int (t_updated_at row))),
            (''artifacts'', JArr (map
               (\<lambda>art. JObj
                  [(''id'', JStr (a_id art)),
                   (''task_id'', JStr (a_task_id art)),
                   (''artifact_id_ref'',
                      (case a_artifact_id_ref art of None \<Rightarrow> JNull | Some r \<Rightarrow> JStr r)),
                   (''content'',
                      (case JSON_parse (a_content art) of
                         Some v \<Rightarrow> v
                       | None \<Rightarrow> JArr [JObj [(''type'', JStr ''error''),
                           (''text'', JStr ''Error: Could not parse artifact content.'')]])),
                   (''created_at'', JNum (int (a_created_at art)))])
               (sort_key a_created_at
                  (filter (\<lambda>a. a_task_id a = taskId) (task_artifacts db)))))])"
proof -
  have "row \<in> set (filter (\<lambda>r. t_id r = taskId) (tasks db))"
    using assms by (simp add: select_task_def)
  then have "t_id row = taskId"
    by simp
  with assms show ?thesis
    by (simp add: getTaskWithArtifacts_def task_json_def artifact_json_def decode_state_details_def
          decode_content_def select_artifacts_def opt_str_def)
qed

text \<open>
  Facts about the example events and states.
\<close>

lemma event_plain_fields:
  "ev_id event_plain = Some ''t1''" "contextId event_plain = Some ''c1''"
  "status event_plain = Some ''working''"
  "''t1'' \<noteq> []" "''c1'' \<noteq> []" "''working'' \<noteq> []"
  by (simp_all add: event_plain_def)

lemma event_done_fields:
  "ev_id event_done = Some ''t1''" "contextId event_done = Some ''c1''"
  "status event_done = Some ''completed''"
  "''c1'' \<noteq> []" "''completed'' \<noteq> []"
  by (simp_all add: event_done_def)

lemma event_v1_fields:
  "ev_id event_v1 = Some ''t1''" "contextId event_v1 = Some ''c1''" "status event_v1 = Some ''working''"
  "''t1'' \<noteq> []" "''c1'' \<noteq> []" "''working'' \<noteq> []"
  by (simp_all add: event_v1_def)

lemma server0_conv: "''c1'' \<in> set (map c_id (conversations (database server0)))"
  by (simp add: server0_def store0_def)

lemma server0_pk: "distinct (map t_id (tasks (database server0)))"
  by (simp add: server0_def store0_def)

lemma server0_free: "''t1'' \<notin> set (map a_task_id (task_artifacts (database server0)))"
  by (simp add: server0_def store0_def)

section \<open>Missing mandatory fields\<close>

text \<open>
  C4. When \<open>id\<close>, \<open>contextId\<close> or \<open>status\<close> is absent from the event, the handler answers
  400 with the missing-fields message, and the server state it returns is the one it was
  given: no task row is inserted or updated, no artifact is written, and no frame is sent
  to any subscriber.
\<close>

theorem task_update_missing_field:
  assumes "ev_id ev = None \<or> contextId ev = None \<or> status ev = None"
  shows "task_update JSON_stringify JSON_parse CURRENT_TIMESTAMP generateUUID ev srv
           = (srv, missing_fields)
         \<and> status_code missing_fields = 400"
  using assms by (auto simp: task_update_def missing_fields_def split: option.splits)

text \<open>An event without \<open>status\<close>.\<close>

theorem task_update_missing_field_witness:
  "task_update stringify parse (\<lambda>k. 7) (\<lambda>k. ''u1'')
     \<lparr>ev_id = Some ''t1'', contextId = Some ''c1'', status = None,
      state_details = None,
      artifacts = Some [Some \<lparr>artifactId = Some ''r1'', content = Some (JArr [JStr ''v1''])\<rparr>]\<rparr>
     server0
   = (server0, missing_fields) \<and> status_code missing_fields = 400"
  using task_update_missing_field [of
     "\<lparr>ev_id = Some ''t1'', contextId = Some ''c1'', status = None,
      state_details = None,
      artifacts = Some [Some \<lparr>artifactId = Some ''r1'', content = Some (JArr [JStr ''v1''])\<rparr>]\<rparr>"
     stringify parse "\<lambda>k. 7" "\<lambda>k. ''u1''" server0]
  by simp

section \<open>Reconciling twice\<close>

text \<open>
  C2, as amended. Let an event have its three mandatory fields, let its conversation
  exist in the store, let the primary key of \<open>tasks\<close> be unique, and let the clock not
  go back between the two calls. After the event is reconciled, the store has exactly
  one task row with its id. Reconciling the same event again leaves exactly one such
  row and inserts no duplicate: the table has as many rows as before, the row keeps its
  \<open>created_at\<close>, and its \<open>updated_at\<close> is greater than or equal to the value after the
  first call. When no artifact row references the task, the second call has rewritten
  the row: its \<open>updated_at\<close> is the clock reading of the second call.
\<close>

theorem reconcile_twice_one_row:
  assumes fields: "ev_id ev = Some tid" "contextId ev = Some cid" "status ev = Some st"
      "tid \<noteq> []" "cid \<noteq> []" "st \<noteq> []"
    and conv: "cid \<in> set (map c_id (conversations (database srv)))"
    and pk: "distinct (map t_id (tasks (database srv)))"
    and mono: "clock1 0 \<le> clock2 0"
    and first: "task_update S P clock1 rng1 ev srv = (srv1, res1)"
    and second: "task_update S P clock2 rng2 ev srv1 = (srv2, res2)"
  shows "\<exists>row1 row2. select_task (database srv1) tid = [row1]
           \<and> select_task (database srv2) tid = [row2]
           \<and> length (tasks (database srv2)) = length (tasks (database srv1))
           \<and> t_created_at row2 = t_created_at row1
           \<and> t_updated_at row1 \<le> t_updated_at row2
           \<and> (tid \<notin> set (map a_task_id (task_artifacts (database srv1))) \<longrightarrow>
                 t_updated_at row2 = clock2 0)"
proof -
  note one = task_update_row [OF fields conv pk first]
  then have pk1: "distinct (map t_id (tasks (database srv1)))"
    and conv1: "cid \<in> set (map c_id (conversations (database srv1)))"
    using conv by simp_all
  note two = task_update_row [OF fields conv1 pk1 second]
  from one obtain row1 where row1: "select_task (database srv1) tid = [row1]"
    using select_task_cases [OF pk, of tid] by auto
  from one row1 have written: "t_updated_at row1 = clock1 0"
    if "\<not> (select_task (database srv1) tid \<noteq> []
            \<and> tid \<in> set (map a_task_id (task_artifacts (database srv1))))"
    using that by auto
  from two show ?thesis
  proof (elim conjE disjE exE)
    assume "srv2 = srv1" "tid \<in> set (map a_task_id (task_artifacts (database srv1)))"
    with row1 show ?thesis by simp
  next
    fix row2
    assume new: "\<not> (select_task (database srv1) tid \<noteq> []
                  \<and> tid \<in> set (map a_task_id (task_artifacts (database srv1))))"
      and row2: "select_task (database srv2) tid = [row2]" "t_updated_at row2 = clock2 0"
        "\<forall>old. select_task (database srv1) tid = [old] \<longrightarrow>
           t_created_at row2 = t_created_at old
           \<and> length (tasks (database srv2)) = length (tasks (database srv1))"
    from written [OF new] mono row1 row2 show ?thesis
      by simp
  qed
qed

text \<open>
  The event \<open>event_plain\<close> reconciled at clock reading 10 and again at 20: one row,
  created at 10 and updated at 20.
\<close>

theorem reconcile_twice_one_row_witness:
  "map (\<lambda>r. (t_created_at r, t_updated_at r))
     (select_task (database (fst (task_update stringify parse (\<lambda>k. 10 + k) uuids
        event_plain server0))) ''t1'') = [(10, 10)]
   \<and> map (\<lambda>r. (t_created_at r, t_updated_at r))
     (select_task (database (fst (task_update stringify parse (\<lambda>k. 20 + k) uuids event_plain
        (fst (task_update stringify parse (\<lambda>k. 10 + k) uuids event_plain server0))))) ''t1'')
       = [(10, 20)]
   \<and> length (tasks (database (fst (task_update stringify parse (\<lambda>k. 20 + k) uuids event_plain
        (fst (task_update stringify parse (\<lambda>k. 10 + k) uuids event_plain server0)))))) = 1"
proof -
  let ?srv1 = "fst (task_update stringify parse (\<lambda>k. 10 + k) uuids event_plain server0)"
  let ?srv2 = "fst (task_update stringify parse (\<lambda>k. 20 + k) uuids event_plain ?srv1)"
  have mono: "10 + 0 \<le> 20 + (0::nat)"
    by simp
  have free: "''t1'' \<notin> set (map a_task_id (task_artifacts (database ?srv1)))"
    by code_simp
  from reconcile_twice_one_row [where ev = event_plain and srv = server0
      and S = stringify and P = parse
      and ?clock1.0 = "\<lambda>k. 10 + k" and ?rng1.0 = uuids
      and ?clock2.0 = "\<lambda>k. 20 + k" and ?rng2.0 = uuids,
      OF event_plain_fields server0_conv server0_pk mono surjective_pairing surjective_pairing]
    free
  obtain row1 row2 where rows: "select_task (database ?srv1) ''t1'' = [row1]"
      "select_task (database ?srv2) ''t1'' = [row2]"
      "length (tasks (database ?srv2)) = length (tasks (database ?srv1))"
      "t_created_at row2 = t_created_at row1" "t_updated_at row2 = 20 + 0"
    by auto
  have "map (\<lambda>r. (t_created_at r, t_updated_at r)) (select_task (database ?srv1) ''t1'') = [(10, 10)]"
    by code_simp
  moreover have "length (tasks (database ?srv1)) = 1"
    by code_simp
  ultimately show ?thesis
    using rows by simp
qed

text \<open>
  C2 as stated fails. An event whose conversation the store does not have is answered
  500 and leaves no task row, also after the second call. And when the clock goes back
  from 20 to 10 between the two calls, \<open>updated_at\<close> goes from 20 to 10.
\<close>

theorem reconcile_twice_fails:
  "status_code (snd (task_update stringify parse (\<lambda>k. 10 + k) uuids event_unknown server0)) = 500
   \<and> select_task (database (fst (task_update stringify parse (\<lambda>k. 20 + k) uuids event_unknown
        (fst (task_update stringify parse (\<lambda>k. 10 + k) uuids event_unknown server0))))) ''t1'' = []
   \<and> map t_updated_at
     (select_task (database (fst (task_update stringify parse (\<lambda>k. 20 + k) uuids
        event_plain server0))) ''t1'') = [20]
   \<and> map t_updated_at
     (select_task (database (fst (task_update stringify parse (\<lambda>k. 10 + k) uuids event_plain
        (fst (task_update stringify parse (\<lambda>k. 20 + k) uuids event_plain server0))))) ''t1'')
       = [10]"
  by code_simp

section \<open>The timestamp of a reconciliation\<close>

text \<open>
  C3, as amended. For two successive reconciliations of events with the same task id,
  each with its mandatory fields and an existing conversation, and with no artifact row
  referencing the task when either runs: the task's \<open>updated_at\<close> after each
  reconciliation is the clock reading of that reconciliation's statement. So
  \<open>updated_at\<close> after the later one is strictly greater exactly when the clock reading
  is strictly greater, and it is greater or equal exactly when the clock has not gone
  back.
\<close>

theorem updated_at_is_clock_reading:
  assumes ev1: "ev_id ev1 = Some tid" "contextId ev1 = Some cid1" "status ev1 = Some st1"
      "tid \<noteq> []" "cid1 \<noteq> []" "st1 \<noteq> []"
    and ev2: "ev_id ev2 = Some tid" "contextId ev2 = Some cid2" "status ev2 = Some st2"
      "cid2 \<noteq> []" "st2 \<noteq> []"
    and conv1: "cid1 \<in> set (map c_id (conversations (database srv)))"
    and conv2: "cid2 \<in> set (map c_id (conversations (database srv)))"
    and pk: "distinct (map t_id (tasks (database srv)))"
    and free0: "tid \<notin> set (map a_task_id (task_artifacts (database srv)))"
    and first: "task_update S P clock1 rng1 ev1 srv = (srv1, res1)"
    and free1: "tid \<notin> set (map a_task_id (task_artifacts (database srv1)))"
    and second: "task_update S P clock2 rng2 ev2 srv1 = (srv2, res2)"
  shows "\<exists>row1 row2. select_task (database srv1) tid = [row1]
           \<and> select_task (database srv2) tid = [row2]
           \<and> t_updated_at row1 = clock1 0 \<and> t_updated_at row2 = clock2 0
           \<and> (t_updated_at row1 < t_updated_at row2) = (clock1 0 < clock2 0)
           \<and> (t_updated_at row1 \<le> t_updated_at row2) = (clock1 0 \<le> clock2 0)"
proof -
  note one = task_update_row [OF ev1 conv1 pk first]
  then have pk1: "distinct (map t_id (tasks (database srv1)))"
    and conv: "cid2 \<in> set (map c_id (conversations (database srv1)))"
    using conv2 by simp_all
  note two = task_update_row [OF ev2(1-3) ev1(4) ev2(4,5) conv pk1 second]
  from one free0 obtain row1 where "select_task (database srv1) tid = [row1]"
      "t_updated_at row1 = clock1 0"
    by auto
  moreover from two free1 obtain row2 where "select_task (database srv2) tid = [row2]"
      "t_updated_at row2 = clock2 0"
    by auto
  ultimately show ?thesis
    by simp
qed

text \<open>
  Two events for task \<open>t1\<close>, reconciled at clock readings 10 and 20.
\<close>

theorem updated_at_is_clock_reading_witness:
  "map t_updated_at (select_task (database (fst
      (task_update stringify parse (\<lambda>k. 10 + k) uuids event_plain server0))) ''t1'') = [10]
   \<and> map t_updated_at (select_task (database (fst
      (task_update stringify parse (\<lambda>k. 20 + k) uuids event_done
         (fst (task_update stringify parse (\<lambda>k. 10 + k) uuids event_plain server0))))) ''t1'') = [20]"
proof -
  let ?srv1 = "fst (task_update stringify parse (\<lambda>k. 10 + k) uuids event_plain server0)"
  have free: "''t1'' \<notin> set (map a_task_id (task_artifacts (database ?srv1)))"
    by code_simp
  from updated_at_is_clock_reading [where ?ev1.0 = event_plain and ?ev2.0 = event_done
      and srv = server0 and S = stringify and P = parse
      and ?clock1.0 = "\<lambda>k. 10 + k" and ?rng1.0 = uuids
      and ?clock2.0 = "\<lambda>k. 20 + k" and ?rng2.0 = uuids,
      OF event_plain_fields event_done_fields server0_conv server0_conv server0_pk server0_free
         surjective_pairing free surjective_pairing]
  obtain row1 row2 where
    "select_task (database ?srv1) ''t1'' = [row1]"
    "select_task (database (fst
      (task_update stringify parse (\<lambda>k. 20 + k) uuids event_done ?srv1))) ''t1'' = [row2]"
    "t_updated_at row1 = 10 + 0" "t_updated_at row2 = 20 + 0"
    by blast
  then show ?thesis
    by simp
qed

text \<open>
  C3 as stated fails. Two successive reconciliations of task \<open>t1\<close> at the same clock
  reading 5, both answered 200, both leave \<open>updated_at = 5\<close>: the later value is not
  strictly greater.
\<close>

theorem updated_at_same_instant:
  "map t_updated_at (select_task (database (fst
      (task_update stringify parse (\<lambda>k. 5) uuids event_plain server0))) ''t1'') = [5]
   \<and> map t_updated_at (select_task (database (fst
      (task_update stringify parse (\<lambda>k. 5) uuids event_done
         (fst (task_update stringify parse (\<lambda>k. 5) uuids event_plain server0))))) ''t1'') = [5]
   \<and> status_code (snd (task_update stringify parse (\<lambda>k. 5) uuids event_plain server0)) = 200
   \<and> status_code (snd (task_update stringify parse (\<lambda>k. 5) uuids event_done
         (fst (task_update stringify parse (\<lambda>k. 5) uuids event_plain server0)))) = 200"
  by code_simp

section \<open>Artifacts of one reference\<close>

text \<open>
  C1. One event with two entries of reference \<open>r1\<close>, of content \<open>v1\<close> and \<open>v2\<close>, is
  answered 200 and leaves two rows for \<open>(t1, r1)\<close> in \<open>task_artifacts\<close>: each row is
  inserted under a newly generated \<open>id\<close>, the only key \<open>INSERT OR REPLACE\<close> can conflict
  on, so nothing is replaced. And when the two contents come in two successive events,
  the second event is answered 500, because the update of the task row is rejected once
  the first artifact row references it: the one row of \<open>(t1, r1)\<close> still holds the first
  content, not the second.
\<close>

theorem artifact_rows_accumulate:
  "status_code (snd (task_update stringify parse (\<lambda>k. 10 + k) uuids event_double server0)) = 200
   \<and> map (\<lambda>r. (a_id r, a_task_id r, a_artifact_id_ref r, a_content r))
       (task_artifacts (database (fst
          (task_update stringify parse (\<lambda>k. 10 + k) uuids event_double server0))))
     = [(''u'', ''t1'', Some ''r1'', stringify content_v1),
        (''uu'', ''t1'', Some ''r1'', stringify content_v2)]
   \<and> status_code (snd (task_update stringify parse (\<lambda>k. 20 + k) (\<lambda>k. CHR ''w'' # uuids k) event_v2
        (fst (task_update stringify parse (\<lambda>k. 10 + k) uuids event_v1 server0)))) = 500
   \<and> map (\<lambda>r. (a_id r, a_task_id r, a_artifact_id_ref r, a_content r))
       (task_artifacts (database (fst
          (task_update stringify parse (\<lambda>k. 20 + k) (\<lambda>k. CHR ''w'' # uuids k) event_v2
             (fst (task_update stringify parse (\<lambda>k. 10 + k) uuids event_v1 server0))))))
     = [(''u'', ''t1'', Some ''r1'', stringify content_v1)]
   \<and> stringify content_v1 \<noteq> stringify content_v2"
  by code_simp

section \<open>Malformed artifact entries\<close>

text \<open>
  C5. Two events with a malformed entry are answered 500. The first, whose first entry
  has no content and whose second entry is well-formed, arrives for a task that already
  has an artifact row: the update of the task row is rejected, the well-formed entry
  \<open>r3\<close> is not stored, and nothing is broadcast (subscriber 1 has the one frame of the
  earlier event). The second has a \<open>null\<close> entry between two well-formed ones, for a
  new task: reading the entry throws after the task row and the row of \<open>r1\<close> are
  written, the entry \<open>r2\<close> is not stored, and nothing is broadcast.
\<close>

theorem malformed_entry_aborts:
  "status_code (snd (task_update stringify parse (\<lambda>k. 20 + k) (\<lambda>k. CHR ''w'' # uuids k) event_mixed
        (fst (task_update stringify parse (\<lambda>k. 10 + k) uuids event_v1 server0)))) = 500
   \<and> map (\<lambda>r. (a_id r, a_artifact_id_ref r))
       (task_artifacts (database (fst
          (task_update stringify parse (\<lambda>k. 20 + k) (\<lambda>k. CHR ''w'' # uuids k) event_mixed
             (fst (task_update stringify parse (\<lambda>k. 10 + k) uuids event_v1 server0))))))
     = [(''u'', Some ''r1'')]
   \<and> length (sent (channel (fst
          (task_update stringify parse (\<lambda>k. 20 + k) (\<lambda>k. CHR ''w'' # uuids k) event_mixed
             (fst (task_update stringify parse (\<lambda>k. 10 + k) uuids event_v1 server0))))) 1) = 1
   \<and> length (sent (channel (fst
          (task_update stringify parse (\<lambda>k. 10 + k) uuids event_v1 server0))) 1) = 1
   \<and> status_code (snd (task_update stringify parse (\<lambda>k. 10 + k) uuids event_null server0)) = 500
   \<and> map t_id (tasks (database (fst
          (task_update stringify parse (\<lambda>k. 10 + k) uuids event_null server0)))) = [''t1'']
   \<and> map (\<lambda>r. (a_id r, a_artifact_id_ref r))
       (task_artifacts (database (fst
          (task_update stringify parse (\<lambda>k. 10 + k) uuids event_null server0))))
     = [(''u'', Some ''r1'')]
   \<and> sent (channel (fst
          (task_update stringify parse (\<lambda>k. 10 + k) uuids event_null server0))) 1 = []"
  by code_simp

section \<open>The snapshot and its broadcast\<close>

text \<open>
  C9. For a store that has the task, whatever \<open>JSON.parse\<close> does on the stored payloads,
  \<open>getTaskWithArtifacts\<close> returns the snapshot: the columns of the task row as stored,
  its \<open>state_details\<close> decoded, and all artifact rows of the task in order of
  \<open>created_at\<close>, each with its columns as stored and its content decoded. A non-empty
  \<open>state_details\<close> that fails to parse is replaced by
  \<open>{error: 'Could not parse state_details.'}\<close> and a content that fails to parse by
  \<open>[{type: 'error', text: 'Error: Could not parse artifact content.'}]\<close>; nothing else
  of the record changes. The snapshot step sends the \<open>task_updated\<close> event with this
  snapshot as data once to every subscriber with an open channel, and to no other.
  The handler reaches this step, on the store it has written, and answers 200, for an
  event with its three mandatory fields whose conversation exists, when no artifact row
  references the task yet and no entry of \<open>artifacts\<close> is \<open>null\<close>.
\<close>

theorem snapshot_broadcast_with_placeholders:
  assumes found: "select_task db taskId = row # others"
    and once: "distinct (clients w)"
    and fields: "ev_id ev = Some tid" "contextId ev = Some cid" "status ev = Some st"
      "tid \<noteq> []" "cid \<noteq> []" "st \<noteq> []"
    and conv: "cid \<in> set (map c_id (conversations (database srv)))"
    and free: "tid \<notin> set (map a_task_id (task_artifacts (database srv)))"
    and objects: "\<forall>arts. artifacts ev = Some arts \<longrightarrow> None \<notin> set arts"
    and run: "task_update JSON_stringify JSON_parse CURRENT_TIMESTAMP generateUUID ev srv = (srv', res)"
  shows "\<exists>snapshot.
           snapshot = JObj
             [(''id'', JStr (t_id row)),
              (''conversation_id'', JStr (t_conversation_id row)),
              (''status'', JStr (t_status row)),
              (''state_details'',
                 (case t_state_details row of
                    None \<Rightarrow> JNull
                  | Some s \<Rightarrow>
                      if s = [] then JNull
                      else (case JSON_parse s of
                              Some v \<Rightarrow> v
                            | None \<Rightarrow> JObj [(''error'', JStr ''Could not parse state_details.'')]))),
              (''created_at'', JNum (int (t_created_at row))),
              (''updated_at'', JNum (int (t_updated_at row))),
              (''artifacts'', JArr (map
                 (\<lambda>art. JObj
                    [(''id'', JStr (a_id art)),
                     (''task_id'', JStr (a_task_id art)),
                     (''artifact_id_ref'',
                        (case a_artifact_id_ref art of None \<Rightarrow> JNull | Some r \<Rightarrow> JStr r)),
                     (''content'',
                        (case JSON_parse (a_content art) of
                           Some v \<Rightarrow> v
                         | None \<Rightarrow> JArr [JObj [(''type'', JStr ''error''),
                             (''text'', JStr ''Error: Could not parse artifact content.'')]])),
                     (''created_at'', JNum (int (a_created_at art)))])
                 (sort_key a_created_at
                    (filter (\<lambda>a. a_task_id a = taskId) (task_artifacts db)))))]
         \<and> getTaskWithArtifacts JSON_parse db taskId = Some snapshot
         \<and> (\<forall>c \<in> set (clients w). readyState w c = OPEN \<longrightarrow>
               sent (broadcast_snapshot JSON_stringify JSON_parse db taskId w) c =
               sent w c @ [JSON_stringify (JObj [(''type'', JStr ''task_updated''),
                                                (''data'', snapshot)])])
         \<and> (\<forall>c. c \<notin> set (clients w) \<or> readyState w c \<noteq> OPEN \<longrightarrow>
               sent (broadcast_snapshot JSON_stringify JSON_parse db taskId w) c = sent w c)
         \<and> status_code res = 200
         \<and> select_task (database srv') tid \<noteq> []
         \<and> channel srv' =
             broadcast_snapshot JSON_stringify JSON_parse (database srv') tid (channel srv)"
proof -
  note snap = getTaskWithArtifacts_found [OF found, of JSON_parse]
  have "sent (broadcast_snapshot JSON_stringify JSON_parse db taskId w) c =
          (if c \<in> set (clients w) \<and> readyState w c = OPEN
           then sent w c @ [JSON_stringify (JObj [(''type'', JStr ''task_updated''),
                  (''data'', the (getTaskWithArtifacts JSON_parse db taskId))])]
           else sent w c)" for c
    using once by (simp add: broadcast_snapshot_def snap broadcast_sent)
  with snap task_update_ok [OF fields conv free objects run] show ?thesis
    by simp
qed

text \<open>
  The snapshot step on a store whose payloads are not JSON sends subscriber 1 the
  snapshot with both placeholders. The handler on a new task sends the snapshot of the
  rows it has just written, whose payloads decode.
\<close>

theorem snapshot_broadcast_with_placeholders_witness:
  "sent (broadcast_snapshot stringify parse store_corrupt ''t1'' channel0) 1
     = [stringify (JObj [(''type'', JStr ''task_updated''),
          (''data'', JObj
             [(''id'', JStr ''t1''), (''conversation_id'', JStr ''c1''),
              (''status'', JStr ''working''),
              (''state_details'', JObj [(''error'', JStr ''Could not parse state_details.'')]),
              (''created_at'', JNum 2), (''updated_at'', JNum 2),
              (''artifacts'', JArr [JObj
                 [(''id'', JStr ''u0''), (''task_id'', JStr ''t1''),
                  (''artifact_id_ref'', JStr ''r0''),
                  (''content'', JArr [JObj [(''type'', JStr ''error''),
                     (''text'', JStr ''Error: Could not parse artifact content.'')]]),
                  (''created_at'', JNum 3)]])])])]
   \<and> status_code (snd (task_update stringify parse (\<lambda>k. 10 + k) uuids event_v1 server0)) = 200
   \<and> sent (channel (fst (task_update stringify parse (\<lambda>k. 10 + k) uuids event_v1 server0))) 1
     = [stringify (JObj [(''type'', JStr ''task_updated''),
          (''data'', JObj
             [(''id'', JStr ''t1''), (''conversation_id'', JStr ''c1''),
              (''status'', JStr ''working''),
              (''state_details'', JStr ''working''),
              (''created_at'', JNum 10), (''updated_at'', JNum 10),
              (''artifacts'', JArr [JObj
                 [(''id'', JStr ''u''), (''task_id'', JStr ''t1''),
                  (''artifact_id_ref'', JStr ''r1''),
                  (''content'', content_v1),
                  (''created_at'', JNum 11)]])])])]"
proof -
  let ?row = "\<lparr>t_id = ''t1'', t_conversation_id = ''c1'', t_status = ''working'',
               t_state_details = Some ''{oops'', t_created_at = 2, t_updated_at = 2\<rparr>"
  have found: "select_task store_corrupt ''t1'' = ?row # []"
    by (simp add: store_corrupt_def select_task_def)
  have once: "distinct (clients channel0)"
    by (simp add: channel0_def)
  have objects: "\<forall>arts. artifacts event_v1 = Some arts \<longrightarrow> None \<notin> set arts"
    by (simp add: event_v1_def)
  have opened: "1 \<in> set (clients channel0)" "readyState channel0 1 = OPEN" "sent channel0 1 = []"
    by (simp_all add: channel0_def)
  have bad: "parse ''{oops'' = None"
    by code_simp
  have rows: "sort_key a_created_at (filter (\<lambda>a. a_task_id a = ''t1'') (task_artifacts store_corrupt))
         = [\<lparr>a_id = ''u0'', a_task_id = ''t1'', a_artifact_id_ref = Some ''r0'',
              a_content = ''{oops'', a_created_at = 3\<rparr>]"
    by (simp add: store_corrupt_def)
  from snapshot_broadcast_with_placeholders [where db = store_corrupt and w = channel0
      and ev = event_v1 and srv = server0
      and JSON_stringify = stringify and JSON_parse = parse
      and CURRENT_TIMESTAMP = "\<lambda>k. 10 + k" and generateUUID = uuids,
      OF found once event_v1_fields server0_conv server0_free objects surjective_pairing]
  have first: "sent (broadcast_snapshot stringify parse store_corrupt ''t1'' channel0) 1
     = [stringify (JObj [(''type'', JStr ''task_updated''),
          (''data'', JObj
             [(''id'', JStr ''t1''), (''conversation_id'', JStr ''c1''),
              (''status'', JStr ''working''),
              (''state_details'', JObj [(''error'', JStr ''Could not parse state_details.'')]),
              (''created_at'', JNum 2), (''updated_at'', JNum 2),
              (''artifacts'', JArr [JObj
                 [(''id'', JStr ''u0''), (''task_id'', JStr ''t1''),
                  (''artifact_id_ref'', JStr ''r0''),
                  (''content'', JArr [JObj [(''type'', JStr ''error''),
                     (''text'', JStr ''Error: Could not parse artifact content.'')]]),
                  (''created_at'', JNum 3)]])])])]"
    and ok: "status_code (snd (task_update stringify parse (\<lambda>k. 10 + k) uuids event_v1 server0)) = 200"
    using opened by (auto simp: bad rows simp del: stringify.simps)
  have "sent (channel (fst (task_update stringify parse (\<lambda>k. 10 + k) uuids event_v1 server0))) 1
     = [stringify (JObj [(''type'', JStr ''task_updated''),
          (''data'', JObj
             [(''id'', JStr ''t1''), (''conversation_id'', JStr ''c1''),
              (''status'', JStr ''working''),
              (''state_details'', JStr ''working''),
              (''created_at'', JNum 10), (''updated_at'', JNum 10),
              (''artifacts'', JArr [JObj
                 [(''id'', JStr ''u''), (''task_id'', JStr ''t1''),
                  (''artifact_id_ref'', JStr ''r1''),
                  (''content'', content_v1),
                  (''created_at'', JNum 11)]])])])]"
    by code_simp
  with first ok show ?thesis
    by simp
qed

section \<open>Results of the host gateway\<close>

text \<open>
  C8. Each of the three calls (register agent, create conversation, relay message)
  resolves to a value and never rejects. When \<open>fetch\<close> throws, the value is
  \<open>{error: true, message, details}\<close> of the error thrown. When the response has a
  non-success status and its body can be read, the value is \<open>{error: true, status,
  message, details}\<close> with the numeric status code of the response and the body text as
  it was read. When the response is a success and its JSON body decodes, the value is the
  decoded body as it is. (Without a \<open>fetch\<close> client the value is the fixed error object.)
\<close>

theorem gateway_results_are_values:
  assumes "call = registerAgent JSON_stringify hc agentUrl
             \<and> req = post_request hc ''/register_agent_service''
                        (Some (JSON_stringify (JObj [(''agent_url'', JStr agentUrl)])))
             \<and> what = ''Failed to register agent: ''
         \<or> call = createConversation hc
             \<and> req = post_request hc ''/create_conversation_service'' None
             \<and> what = ''Failed to create conversation: ''
         \<or> call = sendMessageToHost JSON_stringify hc messageData
             \<and> req = post_request hc ''/send_message_service'' (Some (JSON_stringify messageData))
             \<and> what = ''Failed to send message: ''"
  shows "(\<exists>r. call = Inr r)
       \<and> (fetch hc = None \<longrightarrow> call = Inr fetch_not_available)
       \<and> (\<forall>send e. fetch hc = Some send \<and> send req = Inl e \<longrightarrow>
             call = Inr (JObj [(''error'', JBool True), (''message'', JStr (message e)),
                               (''details'', JStr (stack e))]))
       \<and> (\<forall>send response errorBody.
             fetch hc = Some send \<and> send req = Inr response \<and> \<not> r_ok response
               \<and> r_text response = Inr errorBody \<longrightarrow>
             call = Inr (JObj [(''error'', JBool True), (''status'', JNum (int (r_status response))),
                               (''message'', JStr (what @ r_statusText response)),
                               (''details'', JStr errorBody)]))
       \<and> (\<forall>send response data.
             fetch hc = Some send \<and> send req = Inr response \<and> r_ok response
               \<and> r_json response = Inr data \<longrightarrow>
             call = Inr data)"
  using assms
  by (elim disjE conjE)
     (auto simp: registerAgent_def createConversation_def sendMessageToHost_def try_catch_def
        caught_error_def status_error_def split: option.splits sum.splits)

text \<open>
  A host that answers 500 with body \<open>boom\<close>.
\<close>

theorem gateway_results_are_values_witness:
  "sendMessageToHost stringify host_500 (JObj [])
     = Inr (JObj [(''error'', JBool True), (''status'', JNum 500),
                  (''message'', JStr ''Failed to send message: Internal Server Error''),
                  (''details'', JStr ''boom'')])"
proof -
  let ?resp = "\<lparr>r_ok = False, r_status = 500,
                   r_statusText = ''Internal Server Error'', r_text = Inr ''boom'',
                   r_json = Inl (Error ''invalid json response body'' [])\<rparr>"
  have "fetch host_500 = Some (\<lambda>req. Inr ?resp)"
    by (simp add: host_500_def)
  with gateway_results_are_values [of "sendMessageToHost stringify host_500 (JObj [])"
      stringify host_500 "[]"
      "post_request host_500 ''/send_message_service'' (Some (stringify (JObj [])))"
      "''Failed to send message: ''" "JObj []"]
  have "sendMessageToHost stringify host_500 (JObj [])
     = Inr (JObj [(''error'', JBool True), (''status'', JNum (int (r_status ?resp))),
                  (''message'', JStr (''Failed to send message: '' @ r_statusText ?resp)),
                  (''details'', JStr ''boom'')])"
    by simp
  then show ?thesis
    by simp
qed

section \<open>A failed relay stores nothing\<close>

text \<open>
  C10. For a request that passes the handler's checks: when the relay to the host returns
  a value whose \<open>error\<close> property is truthy, the handler answers 500 and returns the
  server state it was given, so no message row is inserted and no frame is sent. And
  whenever the handler does change the server state, it answers 201 and the relay had
  returned a value without a truthy \<open>error\<close>.
\<close>

theorem message_send_relay_error:
  assumes valid: "msg_conversation_id req = Some conversation_id" "conversation_id \<noteq> []"
      "msg_role req = Some role" "role = ''user'' \<or> role = ''agent''"
      "msg_content req = Some (JArr parts)"
  shows "(\<forall>hostResponse err.
            sendMessageToHost JSON_stringify hc
              (messageDataForHost (generateUUID 0) conversation_id role (JArr parts) (msg_task_id req))
              = Inr hostResponse
            \<and> get_prop hostResponse ''error'' = Inr err \<and> truthy_opt err \<longrightarrow>
            message_send JSON_stringify now generateUUID hc req srv = (srv, host_failed hostResponse)
            \<and> status_code (host_failed hostResponse) = 500)
       \<and> (fst (message_send JSON_stringify now generateUUID hc req srv) \<noteq> srv \<longrightarrow>
            status_code (snd (message_send JSON_stringify now generateUUID hc req srv)) = 201
            \<and> (\<exists>hostResponse err.
                  sendMessageToHost JSON_stringify hc
                    (messageDataForHost (generateUUID 0) conversation_id role (JArr parts)
                       (msg_task_id req))
                    = Inr hostResponse
                  \<and> get_prop hostResponse ''error'' = Inr err \<and> \<not> truthy_opt err))"
proof -
  have role: "role \<noteq> []" "\<not> (role \<noteq> ''user'' \<and> role \<noteq> ''agent'')"
    using valid(4) by auto
  have run: "message_send JSON_stringify now generateUUID hc req srv
         = relay_and_store JSON_stringify now generateUUID hc conversation_id role (JArr parts)
             (msg_task_id req) srv"
    using valid(1,2,3,5) role(1) valid(4) by (auto simp: message_send_def)
  let ?md = "messageDataForHost (generateUUID 0) conversation_id role (JArr parts) (msg_task_id req)"
  let ?run = "message_send JSON_stringify now generateUUID hc req srv"
  have p1: "?run = (srv, host_failed hostResponse) \<and> status_code (host_failed hostResponse) = 500"
    if "sendMessageToHost JSON_stringify hc ?md = Inr hostResponse"
       "get_prop hostResponse ''error'' = Inr err" "truthy_opt err" for hostResponse err
    using that by (simp add: run relay_and_store_def host_failed_def)
  have p2: "status_code (snd ?run) = 201
            \<and> (\<exists>hostResponse err. sendMessageToHost JSON_stringify hc ?md = Inr hostResponse
                  \<and> get_prop hostResponse ''error'' = Inr err \<and> \<not> truthy_opt err)"
    if changed: "fst ?run \<noteq> srv"
  proof (cases "sendMessageToHost JSON_stringify hc ?md")
    case (Inl e)
    with changed show ?thesis by (simp add: run relay_and_store_def)
  next
    case (Inr hostResponse)
    show ?thesis
    proof (cases "get_prop hostResponse ''error''")
      case (Inl e)
      with Inr changed show ?thesis by (simp add: run relay_and_store_def)
    next
      case err: (Inr err)
      show ?thesis
      proof (cases "truthy_opt err")
        case True
        with Inr err changed show ?thesis by (simp add: run relay_and_store_def)
      next
        case False
        define row where "row = \<lparr>m_id = generateUUID 0, m_conversation_id = conversation_id,
               m_task_id = (if truthy_str (msg_task_id req) then msg_task_id req else None),
               m_role = role, m_content = JSON_stringify (JArr parts), m_created_at = now\<rparr>"
        have "status_code (snd ?run) = 201"
        proof (cases "insert_message row (database srv)")
          case (Inl e)
          with Inr err False changed show ?thesis
            by (simp add: run relay_and_store_def Let_def row_def)
        next
          case ins: (Inr db')
          with Inr err False show ?thesis
            by (simp add: run relay_and_store_def Let_def row_def)
        qed
        with Inr err False show ?thesis by blast
      qed
    qed
  qed
  from p1 p2 show ?thesis
    by blast
qed

text \<open>The host answers 500: the handler answers 500 and the server state is unchanged.\<close>

theorem message_send_relay_error_witness:
  "message_send stringify 100 (\<lambda>k. ''m1'') host_500 message0 server0
     = (server0, host_failed (JObj [(''error'', JBool True), (''status'', JNum 500),
                  (''message'', JStr ''Failed to send message: Internal Server Error''),
                  (''details'', JStr ''boom'')]))
   \<and> status_code (host_failed (JObj [(''error'', JBool True), (''status'', JNum 500),
                  (''message'', JStr ''Failed to send message: Internal Server Error''),
                  (''details'', JStr ''boom'')])) = 500"
proof -
  have valid: "msg_conversation_id message0 = Some ''c1''" "''c1'' \<noteq> []"
      "msg_role message0 = Some ''user''" "''user'' = ''user'' \<or> ''user'' = ''agent''"
      "msg_content message0 = Some (JArr [JObj [(''type'', JStr ''text''), (''text'', JStr ''hi'')]])"
    by (simp_all add: message0_def)
  have relay: "sendMessageToHost stringify host_500 md
     = Inr (JObj [(''error'', JBool True), (''status'', JNum 500),
                  (''message'', JStr ''Failed to send message: Internal Server Error''),
                  (''details'', JStr ''boom'')])" for md
    by (simp add: sendMessageToHost_def host_500_def try_catch_def status_error_def)
  have err: "get_prop (JObj [(''error'', JBool True), (''status'', JNum 500),
                  (''message'', JStr ''Failed to send message: Internal Server Error''),
                  (''details'', JStr ''boom'')]) ''error'' = Inr (Some (JBool True))"
      "truthy_opt (Some (JBool True))"
    by (simp_all add: truthy_opt_def)
  from message_send_relay_error [OF valid, of stringify host_500 "\<lambda>k. ''m1''" 100 server0]
       relay err
  show ?thesis
    by blast
qed

end
